theory Spec2Isabelle
  imports Complex_Main
begin

section \<open>Strings and numbers of the host language\<close>

text \<open>
  Strings are modelled as \<open>string\<close> (lists of 8-bit characters); \<open>length\<close> is the
  source's \<open>.length\<close> on ASCII text. \<open>toUpperCase\<close> and \<open>toLowerCase\<close> map the 26 ASCII
  letters and leave every other character as it is; the source's methods also map letters
  outside ASCII (and may change the length there), so the model is exact on ASCII text.
\<close>

definition upper_char :: "char \<Rightarrow> char" where
  "upper_char c =
     (case map_of (zip ''abcdefghijklmnopqrstuvwxyz'' ''ABCDEFGHIJKLMNOPQRSTUVWXYZ'') c of
        Some u \<Rightarrow> u
      | None \<Rightarrow> c)"

definition lower_char :: "char \<Rightarrow> char" where
  "lower_char c =
     (case map_of (zip ''ABCDEFGHIJKLMNOPQRSTUVWXYZ'' ''abcdefghijklmnopqrstuvwxyz'') c of
        Some l \<Rightarrow> l
      | None \<Rightarrow> c)"

definition toUpperCase :: "string \<Rightarrow> string" where
  "toUpperCase s = map upper_char s"

definition toLowerCase :: "string \<Rightarrow> string" where
  "toLowerCase s = map lower_char s"

definition endsWith :: "string \<Rightarrow> string \<Rightarrow> bool" where
  "endsWith s t = (length t \<le> length s \<and> drop (length s - length t) s = t)"

text \<open>
  A value of the source's type \<open>number\<close>: a finite number (taken at its exact real value),
  one of the two infinities, or NaN. Comparisons follow IEEE 754: every comparison with NaN
  is false.
\<close>

datatype jsnum = Num real | PosInfinity | NegInfinity | NaN

fun js_lt :: "jsnum \<Rightarrow> jsnum \<Rightarrow> bool" where
  "js_lt (Num a) (Num b) = (a < b)"
| "js_lt (Num a) PosInfinity = True"
| "js_lt NegInfinity (Num b) = True"
| "js_lt NegInfinity PosInfinity = True"
| "js_lt _ _ = False"

definition js_gt :: "jsnum \<Rightarrow> jsnum \<Rightarrow> bool" where
  "js_gt a b = js_lt b a"

definition js_le :: "jsnum \<Rightarrow> jsnum \<Rightarrow> bool" where
  "js_le a b = (a \<noteq> NaN \<and> b \<noteq> NaN \<and> (js_lt a b \<or> a = b))"

text \<open>Decimal digits of a natural number; \<open>dec 0\<close> is the one digit \<open>0\<close>.\<close>

definition digit_char :: "nat \<Rightarrow> char" where
  "digit_char d = ''0123456789'' ! (d mod 10)"

function dec :: "nat \<Rightarrow> string" where
  "dec n = (if n < 10 then [digit_char n] else dec (n div 10) @ [digit_char (n mod 10)])"
  by pat_completeness auto
termination
  by (relation "measure (\<lambda>n. n)") auto

declare dec.simps [simp del]

text \<open>
  \<open>Number.prototype.toFixed(1)\<close>, step by step as ECMAScript defines it: a value that is
  not finite is rendered by the default number-to-string conversion; otherwise the sign is
  split off, a magnitude of \<open>10^21\<close> or more is again rendered by the default conversion,
  and below that \<open>n\<close> is the integer nearest to ten times the magnitude (the larger one on
  a tie), written in decimal, padded to two digits, with a point before the last digit.
  The default conversion of finite numbers is part of the runtime, not of this
  repository: it is the parameter \<open>Number_toString\<close>.
\<close>

definition toFixed1 :: "(real \<Rightarrow> string) \<Rightarrow> jsnum \<Rightarrow> string" where
  "toFixed1 Number_toString v =
     (case v of
        NaN \<Rightarrow> ''NaN''
      | PosInfinity \<Rightarrow> ''Infinity''
      | NegInfinity \<Rightarrow> ''-Infinity''
      | Num x0 \<Rightarrow>
          (let s = (if x0 < 0 then ''-'' else '''');
               x = (if x0 < 0 then - x0 else x0);
               m = (if 10 ^ 21 \<le> x then Number_toString x
                    else (let n = nat \<lfloor>x * 10 + 1 / 2\<rfloor>;
                              m0 = dec n;
                              m1 = (if length m0 \<le> 1
                                    then replicate (2 - length m0) (CHR ''0'') @ m0
                                    else m0);
                              k = length m1
                          in take (k - 1) m1 @ ''.'' @ drop (k - 1) m1))
           in s @ m))"

section \<open>Trust tiers and policies\<close>

datatype TrustTier = STANDARD | ELEVATED | CRITICAL

datatype AuditLevel = standard | enhanced | forensic

record TrustPolicy =
  tier :: TrustTier
  ciiScore :: jsnum
  country :: string
  requireJWS :: bool
  requireAdminAllowlist :: bool
  deepInjectionScan :: bool
  maxRequestsPerHour :: int
  errorCode :: "int option"
  errorMessage :: "string option"
  auditLevel :: AuditLevel

definition ciiScoreToTier :: "jsnum \<Rightarrow> TrustTier" where
  "ciiScoreToTier score =
     (if js_gt score (Num 60) then CRITICAL
      else if js_gt score (Num 34) then ELEVATED
      else STANDARD)"

text \<open>The template of the CRITICAL error message, around the country and the rendered score.\<close>

definition critical_message :: "string \<Rightarrow> string \<Rightarrow> string" where
  "critical_message c r =
     ''Agent request rejected: origin country '' @ [CHR 0x22] @ c @ [CHR 0x22]
       @ '' has critical instability '' @ ''(CII '' @ r
       @ ''). Requests from this region require explicit ''
       @ ''GATRA administrator approval. Reference: GATRA-POL-CII-CRITICAL''"

definition buildTrustPolicy :: "(real \<Rightarrow> string) \<Rightarrow> string \<Rightarrow> jsnum \<Rightarrow> TrustPolicy" where
  "buildTrustPolicy Number_toString c score =
     (case ciiScoreToTier score of
        STANDARD \<Rightarrow>
          \<lparr>tier = STANDARD, ciiScore = score, country = c,
           requireJWS = False, requireAdminAllowlist = False, deepInjectionScan = False,
           maxRequestsPerHour = 100, errorCode = None, errorMessage = None,
           auditLevel = standard\<rparr>
      | ELEVATED \<Rightarrow>
          \<lparr>tier = ELEVATED, ciiScore = score, country = c,
           requireJWS = True, requireAdminAllowlist = False, deepInjectionScan = True,
           maxRequestsPerHour = 30, errorCode = None, errorMessage = None,
           auditLevel = enhanced\<rparr>
      | CRITICAL \<Rightarrow>
          \<lparr>tier = CRITICAL, ciiScore = score, country = c,
           requireJWS = True, requireAdminAllowlist = True, deepInjectionScan = True,
           maxRequestsPerHour = 10, errorCode = Some (- 32050),
           errorMessage = Some (critical_message c (toFixed1 Number_toString score)),
           auditLevel = forensic\<rparr>)"

section \<open>Country resolution\<close>

datatype CountrySource = vercel_geo | cf_geo | tld | self_reported | unknown

record CountryResolution =
  countryCode :: string
  source :: CountrySource

record PolicyRequest =
  headers :: "string \<rightharpoonup> string"
  agentCardUrl :: "string option"

definition TLD_TO_COUNTRY :: "(string \<times> string) list" where
  "TLD_TO_COUNTRY =
     [(''.mm'', ''MM''), (''.ph'', ''PH''), (''.id'', ''ID''), (''.th'', ''TH''), (''.kh'', ''KH''),
      (''.la'', ''LA''), (''.vn'', ''VN''), (''.my'', ''MY''), (''.sg'', ''SG''), (''.bn'', ''BN''),
      (''.tl'', ''TL''), (''.bd'', ''BD''), (''.pk'', ''PK''), (''.af'', ''AF''), (''.in'', ''IN''),
      (''.np'', ''NP''), (''.lk'', ''LK''), (''.kp'', ''KP''), (''.cn'', ''CN''), (''.tw'', ''TW''),
      (''.jp'', ''JP''), (''.kr'', ''KR''), (''.ru'', ''RU''), (''.ua'', ''UA''), (''.ir'', ''IR''),
      (''.iq'', ''IQ''), (''.sy'', ''SY''), (''.ye'', ''YE''), (''.so'', ''SO''), (''.ss'', ''SS''),
      (''.sd'', ''SD''), (''.ly'', ''LY''), (''.ml'', ''ML''), (''.cf'', ''CF''), (''.cd'', ''CD'')]"

text \<open>
  \<open>new URL(url).hostname\<close> belongs to the runtime: the parameter \<open>URL_hostname\<close> gives the
  host name of a URL, or \<open>None\<close> where the constructor throws. The \<open>try/catch\<close> of the source
  turns the exception into "no match". The loop returns at the first table entry whose
  suffix ends the lower-cased host name.
\<close>

definition extractTldCountry :: "(string \<Rightarrow> string option) \<Rightarrow> string \<Rightarrow> string option" where
  "extractTldCountry URL_hostname url =
     (case URL_hostname url of
        None \<Rightarrow> None
      | Some host \<Rightarrow>
          (case find (\<lambda>(t, code). endsWith (toLowerCase host) t) TLD_TO_COUNTRY of
             Some (t, code) \<Rightarrow> Some code
           | None \<Rightarrow> None))"

text \<open>A header value that is present, a string, and of length 2.\<close>

definition two_chars :: "string option \<Rightarrow> bool" where
  "two_chars v = (case v of Some s \<Rightarrow> length s = 2 | None \<Rightarrow> False)"

definition truthy :: "string option \<Rightarrow> bool" where
  "truthy v = (case v of Some s \<Rightarrow> s \<noteq> [] | None \<Rightarrow> False)"

definition resolveAgentCountry :: "(string \<Rightarrow> string option) \<Rightarrow> PolicyRequest \<Rightarrow> CountryResolution" where
  "resolveAgentCountry URL_hostname req =
     (let h = headers req;
          vercelCountry = h ''x-vercel-ip-country'';
          cfCountry = h ''cf-ipcountry'';
          tldCode = (if truthy (agentCardUrl req)
                     then extractTldCountry URL_hostname (the (agentCardUrl req))
                     else None);
          selfReported = h ''x-agent-country''
      in if two_chars vercelCountry
         then \<lparr>countryCode = toUpperCase (the vercelCountry), source = vercel_geo\<rparr>
         else if two_chars cfCountry \<and> cfCountry \<noteq> Some ''XX''
         then \<lparr>countryCode = toUpperCase (the cfCountry), source = cf_geo\<rparr>
         else if truthy tldCode
         then \<lparr>countryCode = the tldCode, source = tld\<rparr>
         else if two_chars selfReported
         then \<lparr>countryCode = toUpperCase (the selfReported), source = self_reported\<rparr>
         else \<lparr>countryCode = ''XX'', source = unknown\<rparr>)"

text \<open>
  The plain-JavaScript copy of the resolver that the edge function runs (listed in the
  infrastructure documentation). It takes the agent-card URL as a second argument and
  labels the result of the CloudFlare header \<open>vercel-geo\<close>.
\<close>

definition resolveAgentCountry_edge :: "(string \<Rightarrow> string option) \<Rightarrow> (string \<rightharpoonup> string) \<Rightarrow> string option \<Rightarrow> CountryResolution" where
  "resolveAgentCountry_edge URL_hostname h cardUrl =
     (let vercelCountry = h ''x-vercel-ip-country'';
          cfCountry = h ''cf-ipcountry'';
          tldCode = (if truthy cardUrl
                     then extractTldCountry URL_hostname (the cardUrl)
                     else None);
          selfReported = h ''x-agent-country''
      in if two_chars vercelCountry
         then \<lparr>countryCode = toUpperCase (the vercelCountry), source = vercel_geo\<rparr>
         else if two_chars cfCountry \<and> cfCountry \<noteq> Some ''XX''
         then \<lparr>countryCode = toUpperCase (the cfCountry), source = vercel_geo\<rparr>
         else if truthy tldCode
         then \<lparr>countryCode = the tldCode, source = tld\<rparr>
         else if two_chars selfReported
         then \<lparr>countryCode = toUpperCase (the selfReported), source = self_reported\<rparr>
         else \<lparr>countryCode = ''XX'', source = unknown\<rparr>)"

section \<open>Score table and policy decision\<close>

text \<open>
  The score table is a module-level object that \<open>updateCiiScore\<close> mutates; the functions
  that read it take its current contents as an argument. Codes are looked up after
  \<open>toUpperCase\<close>; a two-letter key is never a property inherited from the object prototype,
  so the table is a finite map.
\<close>

definition COUNTRY_CII_OVERRIDES :: "string \<rightharpoonup> jsnum" where
  "COUNTRY_CII_OVERRIDES = map_of
     [(''MM'', Num 72.8), (''PH'', Num 38.2), (''ID'', Num 22.1), (''TH'', Num 31.4),
      (''KH'', Num 44.7), (''LA'', Num 35.9), (''VN'', Num 28.6), (''MY'', Num 19.3),
      (''SG'', Num 8.1), (''BN'', Num 12.0), (''TL'', Num 41.2),
      (''BD'', Num 48.3), (''PK'', Num 61.7), (''AF'', Num 89.4), (''IN'', Num 29.1),
      (''KP'', Num 78.2), (''CN'', Num 24.3), (''TW'', Num 15.6),
      (''YE'', Num 91.2), (''SY'', Num 88.1), (''IQ'', Num 52.4),
      (''SO'', Num 83.6), (''SS'', Num 79.3), (''SD'', Num 71.8),
      (''US'', Num 12.4), (''JP'', Num 5.2), (''KR'', Num 11.8), (''AU'', Num 6.1),
      (''GB'', Num 8.7), (''DE'', Num 7.3), (''FR'', Num 9.1), (''NL'', Num 5.8),
      (''CA'', Num 7.0), (''NZ'', Num 4.9)]"

definition getCiiScore :: "(string \<rightharpoonup> jsnum) \<Rightarrow> string \<Rightarrow> jsnum" where
  "getCiiScore table code =
     (case table (toUpperCase code) of Some v \<Rightarrow> v | None \<Rightarrow> Num 0)"

definition updateCiiScore :: "(string \<rightharpoonup> jsnum) \<Rightarrow> string \<Rightarrow> jsnum \<Rightarrow> (string \<rightharpoonup> jsnum)" where
  "updateCiiScore table code score = table(toUpperCase code \<mapsto> score)"

text \<open>The runtime services the decision engine calls, and the clock reading it stamps.\<close>

record Runtime =
  URL_hostname :: "string \<Rightarrow> string option"
  Number_toString :: "real \<Rightarrow> string"
  now :: string

record CiiPolicyDecision =
  allowed :: bool
  policy :: TrustPolicy
  decisionCountryCode :: string
  countrySource :: CountrySource
  isInAllowlist :: bool
  enforcedAt :: string

definition evaluateCiiTrustPolicy ::
  "Runtime \<Rightarrow> (string \<rightharpoonup> jsnum) \<Rightarrow> PolicyRequest \<Rightarrow> string set \<Rightarrow> string \<Rightarrow> CiiPolicyDecision" where
  "evaluateCiiTrustPolicy rt table req allowlist agentId =
     (let res = resolveAgentCountry (URL_hostname rt) req;
          score = getCiiScore table (countryCode res);
          pol = buildTrustPolicy (Number_toString rt) (countryCode res) score;
          inAllowlist = (agentId \<in> allowlist \<or> ''*'' \<in> allowlist);
          ok = (if tier pol = CRITICAL \<and> \<not> inAllowlist then False else True)
      in \<lparr>allowed = ok, policy = pol, decisionCountryCode = countryCode res,
          countrySource = source res, isInAllowlist = inAllowlist, enforcedAt = now rt\<rparr>)"

section \<open>Skill routing\<close>

text \<open>
  The regular expressions of the router, as alternatives of atom sequences. An atom is a
  character class repeated between a lower and an optional upper bound, or the word
  boundary \<open>\b\<close>. \<open>rx_match\<close> decides whether a sequence matches at the start of the input
  (given the character before it); like a backtracking matcher it tries every split.
  \<open>rx_test\<close> is \<open>RegExp.prototype.test\<close> for an expression without the global flag: a match
  starting anywhere.
\<close>

datatype atom = Rep "char \<Rightarrow> bool" nat "nat option" | WordB

definition is_digit :: "char \<Rightarrow> bool" where
  "is_digit c = (c \<in> set ''0123456789'')"

definition is_word :: "char \<Rightarrow> bool" where
  "is_word c = (c \<in> set ''abcdefghijklmnopqrstuvwxyzABCDEFGHIJKLMNOPQRSTUVWXYZ0123456789_'')"

definition is_hex :: "char \<Rightarrow> bool" where
  "is_hex c = (c \<in> set ''abcdefABCDEF0123456789'')"

definition any_char :: "char \<Rightarrow> bool" where
  "any_char c = (c \<noteq> CHR 0x0A \<and> c \<noteq> CHR 0x0D)"

definition word_at :: "char option \<Rightarrow> bool" where
  "word_at c = (case c of None \<Rightarrow> False | Some x \<Rightarrow> is_word x)"

definition next_char :: "string \<Rightarrow> char option" where
  "next_char s = (case s of [] \<Rightarrow> None | c # cs \<Rightarrow> Some c)"

definition less_one :: "nat option \<Rightarrow> nat option" where
  "less_one hi = (case hi of None \<Rightarrow> None | Some h \<Rightarrow> Some (h - 1))"

fun rx_match :: "atom list \<Rightarrow> char option \<Rightarrow> string \<Rightarrow> bool" where
  "rx_match [] prev s = True"
| "rx_match (WordB # as) prev s = (word_at prev \<noteq> word_at (next_char s) \<and> rx_match as prev s)"
| "rx_match (Rep p (Suc lo) hi # as) prev [] = False"
| "rx_match (Rep p (Suc lo) hi # as) prev (c # cs) =
     (p c \<and> rx_match (Rep p lo (less_one hi) # as) (Some c) cs)"
| "rx_match (Rep p 0 hi # as) prev [] = rx_match as prev []"
| "rx_match (Rep p 0 hi # as) prev (c # cs) =
     (rx_match as prev (c # cs)
      \<or> (hi \<noteq> Some 0 \<and> p c \<and> rx_match (Rep p 0 (less_one hi) # as) (Some c) cs))"

fun rx_search :: "atom list \<Rightarrow> char option \<Rightarrow> string \<Rightarrow> bool" where
  "rx_search as prev [] = rx_match as prev []"
| "rx_search as prev (c # cs) = (rx_match as prev (c # cs) \<or> rx_search as (Some c) cs)"

definition rx_test :: "atom list list \<Rightarrow> string \<Rightarrow> bool" where
  "rx_test alts s = list_ex (\<lambda>as. rx_search as None s) alts"

definition lit :: "string \<Rightarrow> atom list" where
  "lit w = map (\<lambda>c. Rep (\<lambda>x. lower_char x = c) 1 (Some 1)) w"

definition RX_IPV4 :: "atom list list" where
  "RX_IPV4 =
     [[WordB, Rep is_digit 1 (Some 3), Rep (\<lambda>x. x = CHR ''.'') 1 (Some 1),
       Rep is_digit 1 (Some 3), Rep (\<lambda>x. x = CHR ''.'') 1 (Some 1),
       Rep is_digit 1 (Some 3), Rep (\<lambda>x. x = CHR ''.'') 1 (Some 1),
       Rep is_digit 1 (Some 3), WordB]]"

definition RX_HASH :: "atom list list" where
  "RX_HASH = [[WordB, Rep is_hex 32 (Some 64), WordB]]"

definition RX_IOC :: "atom list list" where
  "RX_IOC = map lit [''ioc'', ''indicator'', ''lookup'', ''hash'', ''malware'', ''virustotal'',
                     ''threatfox'', ''abuseipdb'']"

definition RX_TRIAGE :: "atom list list" where
  "RX_TRIAGE =
     [lit ''triage'', lit ''alert'', lit ''incident'' @ [Rep any_char 0 None] @ lit ''analy'',
      lit ''prioriti'', lit ''mitre'', lit ''att&ck'',
      lit ''kill'' @ [Rep any_char 0 (Some 1)] @ lit ''chain'',
      lit ''threat'' @ [Rep any_char 0 None] @ lit ''intel'']"

definition RX_CONTAIN :: "atom list list" where
  "RX_CONTAIN = map lit [''contain'', ''isolat'', ''block'', ''quarantin'', ''respond'',
                         ''playbook'', ''soar'', ''remediat'', ''eradicat'']"

definition RX_REPORT :: "atom list list" where
  "RX_REPORT = map lit [''report'', ''dashboard'', ''summary'', ''metric'', ''cii'',
                        ''compliance'', ''executive'', ''trend'']"

definition RX_LEARN :: "atom list list" where
  "RX_LEARN =
     [lit ''learn'', lit ''assess'', lit ''maturity'',
      lit ''zero'' @ [Rep any_char 0 (Some 1)] @ lit ''trust'',
      lit ''post'' @ [Rep any_char 0 (Some 1)] @ lit ''incident'',
      lit ''knowledge'',
      lit ''model'' @ [Rep any_char 0 None] @ lit ''updat'',
      lit ''feedback'']"

text \<open>
  \<open>SKILL_MAP\<close> is an object literal, so \<open>SKILL_MAP[key]\<close> finds the six own entries and,
  for any other key, whatever the object prototype provides under that name: a function or
  object that is truthy and has no \<open>agentId\<close>.
\<close>

datatype SkillEntry = Agent string string | Inherited

definition SKILL_MAP :: "(string \<times> SkillEntry) list" where
  "SKILL_MAP =
     [(''anomaly-detection'', Agent ''ADA'' ''Anomaly Detection Agent''),
      (''triage-analysis'', Agent ''TAA'' ''Triage & Analysis Agent''),
      (''containment-response'', Agent ''CRA'' ''Containment & Response Agent''),
      (''continuous-learning'', Agent ''CLA'' ''Continuous Learning Agent''),
      (''reporting-visualization'', Agent ''RVA'' ''Reporting & Visualization Agent''),
      (''ioc-lookup'', Agent ''IOC'' ''IOC Scanner'')]"

definition Object_prototype_keys :: "string list" where
  "Object_prototype_keys =
     [''constructor'', ''__defineGetter__'', ''__defineSetter__'', ''hasOwnProperty'',
      ''__lookupGetter__'', ''__lookupSetter__'', ''isPrototypeOf'', ''propertyIsEnumerable'',
      ''toString'', ''valueOf'', ''__proto__'', ''toLocaleString'']"

definition SKILL_MAP_get :: "string \<Rightarrow> SkillEntry option" where
  "SKILL_MAP_get key =
     (case map_of SKILL_MAP key of
        Some a \<Rightarrow> Some a
      | None \<Rightarrow> if key \<in> set Object_prototype_keys then Some Inherited else None)"

record Route =
  skillId :: string
  agent :: SkillEntry

definition own_route :: "string \<Rightarrow> Route" where
  "own_route k = \<lparr>skillId = k, agent = the (map_of SKILL_MAP k)\<rparr>"

text \<open>The argument \<open>sid\<close> is \<open>metadata?.skillId\<close>: \<open>None\<close> when the metadata or the field is absent.\<close>

definition routeToAgent :: "string \<Rightarrow> string option \<Rightarrow> Route" where
  "routeToAgent txt sid =
     (if truthy sid \<and> SKILL_MAP_get (the sid) \<noteq> None
      then \<lparr>skillId = the sid, agent = the (SKILL_MAP_get (the sid))\<rparr>
      else (let lower = toLowerCase txt
            in if rx_test RX_IPV4 txt \<or> rx_test RX_HASH txt \<or> rx_test RX_IOC lower
               then own_route ''ioc-lookup''
               else if rx_test RX_TRIAGE lower then own_route ''triage-analysis''
               else if rx_test RX_CONTAIN lower then own_route ''containment-response''
               else if rx_test RX_REPORT lower then own_route ''reporting-visualization''
               else if rx_test RX_LEARN lower then own_route ''continuous-learning''
               else own_route ''anomaly-detection''))"

section \<open>JSON-RPC task engine\<close>

definition ERR_INVALID_PARAMS :: int where
  "ERR_INVALID_PARAMS = - 32602"

definition ERR_TASK_NOT_FOUND :: int where
  "ERR_TASK_NOT_FOUND = - 32001"

definition ERR_TASK_NOT_CANCELABLE :: int where
  "ERR_TASK_NOT_CANCELABLE = - 32002"

text \<open>
  Objects of the wire format. A field that may be absent is an \<open>option\<close>. In a task, the
  fields of the nested \<open>status\<close> and \<open>metadata\<close> objects are written as fields of the task
  itself: both are created with their task and reached only through it.
\<close>

record Part =
  kind :: "string option"
  part_text :: "string option"

record Message =
  messageId :: "string option"
  role :: "string option"
  parts :: "Part list option"
  taskId :: "string option"
  contextId :: "string option"

record Artifact =
  artifactId :: string
  name :: string
  artifact_parts :: "Part list"

record Task =
  task_id :: string
  task_contextId :: string
  state :: string
  timestamp :: string
  status_message :: Message
  artifacts :: "Artifact list"
  history :: "Message list option"
  gatraAgent :: string
  gatraSkill :: string
  processedAt :: string

record SendParams =
  message :: "Message option"
  historyLength :: "real option"
  metadata_skillId :: "string option"

record TaskParams =
  params_id :: "string option"
  params_historyLength :: "real option"

datatype Response = Success string Task | Failure string int string

datatype exn = TypeError

text \<open>
  The module-level \<open>Map\<close> of tasks. A \<open>Map\<close> keeps its keys in insertion order: \<open>set\<close> on a
  key already present replaces the value where it stands, on a new key it appends;
  \<open>keys().next().value\<close> is the first key. The values are references to task objects, so
  the store is the key list \<open>tasks\<close> together with the object heap \<open>objs\<close>, a reference being
  an index into the heap. Creating an object appends it to the heap.
\<close>

record Server =
  tasks :: "(string \<times> nat) list"
  objs :: "Task list"

definition empty_server :: Server where
  "empty_server = \<lparr>tasks = [], objs = []\<rparr>"

fun Map_set :: "(string \<times> nat) list \<Rightarrow> string \<Rightarrow> nat \<Rightarrow> (string \<times> nat) list" where
  "Map_set [] k v = [(k, v)]"
| "Map_set ((k', v') # m) k v = (if k' = k then (k, v) # m else (k', v') # Map_set m k v)"

definition Map_delete :: "(string \<times> nat) list \<Rightarrow> string \<Rightarrow> (string \<times> nat) list" where
  "Map_delete m k = filter (\<lambda>(k', v). k' \<noteq> k) m"

definition tasks_get :: "Server \<Rightarrow> string \<Rightarrow> (nat \<times> Task) option" where
  "tasks_get srv k =
     (case map_of (tasks srv) k of
        None \<Rightarrow> None
      | Some r \<Rightarrow> if r < length (objs srv) then Some (r, objs srv ! r) else None)"

definition stored :: "Server \<Rightarrow> string \<Rightarrow> Task option" where
  "stored srv k = map_option snd (tasks_get srv k)"

definition quoted :: "string \<Rightarrow> string" where
  "quoted s = [CHR 0x22] @ s @ [CHR 0x22]"

subsection \<open>tasks/get\<close>

definition handleTasksGet :: "Server \<Rightarrow> string \<Rightarrow> TaskParams option \<Rightarrow> Response \<times> Server" where
  "handleTasksGet srv i params =
     (case params of
        None \<Rightarrow> (Failure i ERR_INVALID_PARAMS ''Missing required field: params.id'', srv)
      | Some p \<Rightarrow>
          if \<not> truthy (params_id p)
          then (Failure i ERR_INVALID_PARAMS ''Missing required field: params.id'', srv)
          else (case tasks_get srv (the (params_id p)) of
                  None \<Rightarrow>
                    (Failure i ERR_TASK_NOT_FOUND
                       (''Task '' @ quoted (the (params_id p)) @ '' not found''), srv)
                | Some (r, task) \<Rightarrow>
                    (let result = length (objs srv);
                         heap1 = objs srv @ [task];
                         heap2 = (if params_historyLength p = Some 0
                                  then heap1[result := (heap1 ! result)\<lparr>history := None\<rparr>]
                                  else heap1)
                     in (Success i (heap2 ! result), srv\<lparr>objs := heap2\<rparr>))))"

subsection \<open>tasks/cancel\<close>

definition terminalStates :: "string list" where
  "terminalStates = [''completed'', ''failed'', ''canceled'', ''rejected'']"

definition handleTasksCancel :: "string \<Rightarrow> Server \<Rightarrow> string \<Rightarrow> TaskParams option \<Rightarrow> Response \<times> Server" where
  "handleTasksCancel clock srv i params =
     (case params of
        None \<Rightarrow> (Failure i ERR_INVALID_PARAMS ''Missing required field: params.id'', srv)
      | Some p \<Rightarrow>
          if \<not> truthy (params_id p)
          then (Failure i ERR_INVALID_PARAMS ''Missing required field: params.id'', srv)
          else (case tasks_get srv (the (params_id p)) of
                  None \<Rightarrow>
                    (Failure i ERR_TASK_NOT_FOUND
                       (''Task '' @ quoted (the (params_id p)) @ '' not found''), srv)
                | Some (r, task) \<Rightarrow>
                    if state task \<in> set terminalStates
                    then (Failure i ERR_TASK_NOT_CANCELABLE
                            (''Task '' @ quoted (the (params_id p)) @ '' is in terminal state ''
                               @ quoted (state task) @ '' and cannot be canceled''), srv)
                    else (let heap1 = (objs srv)[r := task\<lparr>state := ''canceled'', timestamp := clock\<rparr>]
                          in (Success i (heap1 ! r), srv\<lparr>objs := heap1\<rparr>))))"

subsection \<open>message/send\<close>

text \<open>
  What one \<open>message/send\<close> call reads from outside: the clock, the response generator
  (a template function of the agent id, the text and the skill id), and the value each
  call site of \<open>uid()\<close> would draw.
\<close>

record SendEnv =
  date_now :: string
  generateAgentResponse :: "string option \<Rightarrow> string \<Rightarrow> string \<Rightarrow> string"
  uid_context :: string
  uid_task :: string
  uid_status :: string
  uid_artifact :: string
  uid_history_user :: string
  uid_history_agent :: string

text \<open>
  \<open>trim\<close> strips the six ASCII white-space characters. On text outside ASCII the source's
  \<open>String.prototype.trim\<close> strips more (the no-break space, the byte-order mark, the
  Unicode spaces); the model is exact on ASCII text.
\<close>

definition is_space :: "char \<Rightarrow> bool" where
  "is_space c = (c \<in> set [CHR 0x09, CHR 0x0A, CHR 0x0B, CHR 0x0C, CHR 0x0D, CHR 0x20])"

definition trim :: "string \<Rightarrow> string" where
  "trim s = rev (dropWhile is_space (rev (dropWhile is_space s)))"

fun join_space :: "string list \<Rightarrow> string" where
  "join_space [] = []"
| "join_space [x] = x"
| "join_space (x # y # xs) = x @ '' '' @ join_space (y # xs)"

definition userText_of :: "Part list \<Rightarrow> string" where
  "userText_of ps =
     trim (join_space
       (map (\<lambda>p. case part_text p of Some t \<Rightarrow> t | None \<Rightarrow> [])
          (filter (\<lambda>p. kind p = Some ''text'' \<or> part_text p \<noteq> None) ps)))"

definition agentId_of :: "SkillEntry \<Rightarrow> string option" where
  "agentId_of a = (case a of Agent aid nm \<Rightarrow> Some aid | Inherited \<Rightarrow> None)"

definition text_part :: "string \<Rightarrow> Part" where
  "text_part t = \<lparr>kind = Some ''text'', part_text = Some t\<rparr>"

definition agent_message :: "string \<Rightarrow> string \<Rightarrow> Message" where
  "agent_message mid t =
     \<lparr>messageId = Some mid, role = Some ''agent'', parts = Some [text_part t],
      taskId = None, contextId = None\<rparr>"

text \<open>
  The end of \<open>handleMessageSend\<close>: the new task object is stored under its id, and when the
  map then holds more than 50 entries its first key is deleted.
\<close>

definition store_task :: "Server \<Rightarrow> string \<Rightarrow> Task \<Rightarrow> Server" where
  "store_task srv tid task =
     (let ref = length (objs srv);
          heap1 = objs srv @ [task];
          tasks1 = Map_set (tasks srv) tid ref;
          tasks2 = (if 50 < length tasks1
                    then Map_delete tasks1 (fst (hd tasks1))
                    else tasks1)
      in \<lparr>tasks = tasks2, objs = heap1\<rparr>)"

definition handleMessageSend ::
  "SendEnv \<Rightarrow> Server \<Rightarrow> string \<Rightarrow> SendParams option \<Rightarrow> (exn + Response) \<times> Server" where
  "handleMessageSend env srv i params =
     (if params = None \<or> message (the params) = None
      then (Inr (Failure i ERR_INVALID_PARAMS ''Missing required field: params.message''), srv)
      else (let msg = the (message (the params)) in
        if parts msg = None \<or> the (parts msg) = []
        then (Inr (Failure i ERR_INVALID_PARAMS ''Message must contain at least one part''), srv)
        else if truthy (role msg) \<and> role msg \<noteq> Some ''user''
        then (Inr (Failure i ERR_INVALID_PARAMS (''Message role must be '' @ quoted ''user'')), srv)
        else (let userText = userText_of (the (parts msg)) in
          if userText = []
          then (Inr (Failure i ERR_INVALID_PARAMS ''No text content found in message parts''), srv)
          else (let route = routeToAgent userText (metadata_skillId (the params));
                    ctx = (if truthy (contextId msg) then the (contextId msg) else uid_context env);
                    tid = (if truthy (taskId msg) then the (taskId msg) else uid_task env);
                    responseText = generateAgentResponse env (agentId_of (agent route)) userText
                                     (skillId route)
                in (case agentId_of (agent route) of
                      None \<Rightarrow> (Inl TypeError, srv)
                    | Some aid \<Rightarrow>
                        (let task =
                               \<lparr>task_id = tid, task_contextId = ctx, state = ''completed'',
                                timestamp = date_now env,
                                status_message = agent_message (uid_status env) responseText,
                                artifacts = [\<lparr>artifactId = uid_artifact env,
                                              name = toLowerCase aid @ ''-analysis'',
                                              artifact_parts = [text_part responseText]\<rparr>],
                                history =
                                  (if (case historyLength (the params) of
                                         Some h \<Rightarrow> 0 < h | None \<Rightarrow> False)
                                   then Some [\<lparr>messageId =
                                                  Some (if truthy (messageId msg)
                                                        then the (messageId msg)
                                                        else uid_history_user env),
                                                role = Some ''user'', parts = parts msg,
                                                taskId = None, contextId = None\<rparr>,
                                              agent_message (uid_history_agent env) responseText]
                                   else None),
                                gatraAgent = aid, gatraSkill = skillId route,
                                processedAt = date_now env\<rparr>
                         in (Inr (Success i task), store_task srv tid task)))))))"

subsection \<open>Runs of the engine\<close>

datatype Request =
    MessageSend SendEnv string "SendParams option"
  | TasksGet string "TaskParams option"
  | TasksCancel string string "TaskParams option"

fun step :: "Server \<Rightarrow> Request \<Rightarrow> Server" where
  "step srv (MessageSend env i params) = snd (handleMessageSend env srv i params)"
| "step srv (TasksGet i params) = snd (handleTasksGet srv i params)"
| "step srv (TasksCancel clock i params) = snd (handleTasksCancel clock srv i params)"

definition run :: "Request list \<Rightarrow> Server" where
  "run reqs = foldl step empty_server reqs"

text \<open>A store as the engine builds it: distinct keys, and every reference a live object.\<close>

definition wf_server :: "Server \<Rightarrow> bool" where
  "wf_server srv =
     (distinct (map fst (tasks srv)) \<and> list_all (\<lambda>(k, r). r < length (objs srv)) (tasks srv))"

section \<open>Notions of the specification\<close>

text \<open>
  A score "rendered to one decimal place": the decimal digits of the integer nearest to ten
  times the score (the larger one on a tie), with a point before the last digit.
\<close>

definition one_decimal :: "real \<Rightarrow> string" where
  "one_decimal x =
     (let n = nat \<lfloor>x * 10 + 1 / 2\<rfloor>
      in dec (n div 10) @ ''.'' @ [digit_char (n mod 10)])"

text \<open>
  The country codes whose ccTLD suffix ends the host name of an agent-card URL: none for
  an absent or empty URL, and none for a URL that does not parse.
\<close>

definition cctld_codes :: "(string \<Rightarrow> string option) \<Rightarrow> string option \<Rightarrow> string list" where
  "cctld_codes U url =
     (case url of
        None \<Rightarrow> []
      | Some u \<Rightarrow>
          if u = [] then []
          else (case U u of
                  None \<Rightarrow> []
                | Some host \<Rightarrow>
                    map snd (filter (\<lambda>(t, code). endsWith (toLowerCase host) t) TLD_TO_COUNTRY)))"

text \<open>One group of an IPv4-shaped token: one to three decimal digits.\<close>

definition digit_group :: "string \<Rightarrow> bool" where
  "digit_group d = (d \<noteq> [] \<and> length d \<le> 3 \<and> list_all is_digit d)"

text \<open>
  The router's categories in their priority order, each with its test on the message
  text; the first category whose test succeeds wins.
\<close>

definition categories :: "(string \<times> (string \<Rightarrow> bool)) list" where
  "categories =
     [(''ioc-lookup'', \<lambda>t. rx_test RX_IPV4 t \<or> rx_test RX_HASH t \<or> rx_test RX_IOC (toLowerCase t)),
      (''triage-analysis'', \<lambda>t. rx_test RX_TRIAGE (toLowerCase t)),
      (''containment-response'', \<lambda>t. rx_test RX_CONTAIN (toLowerCase t)),
      (''reporting-visualization'', \<lambda>t. rx_test RX_REPORT (toLowerCase t)),
      (''continuous-learning'', \<lambda>t. rx_test RX_LEARN (toLowerCase t))]"

definition first_category :: "string \<Rightarrow> string" where
  "first_category t =
     (case find (\<lambda>(c, test). test t) categories of
        Some (c, test) \<Rightarrow> c
      | None \<Rightarrow> ''anomaly-detection'')"

text \<open>Every task object on the heap is in state completed; an answer that is an error.\<close>

definition all_completed :: "Server \<Rightarrow> bool" where
  "all_completed srv = list_all (\<lambda>t. state t = ''completed'') (objs srv)"

definition is_failure :: "Response \<Rightarrow> bool" where
  "is_failure r = (case r of Failure j c m \<Rightarrow> True | Success j t \<Rightarrow> False)"

text \<open>A runtime for the worked examples: it parses one URL and renders \<open>10^21\<close> as ECMAScript does.\<close>

definition example_runtime :: Runtime where
  "example_runtime =
     \<lparr>URL_hostname = (\<lambda>u. if u = ''https://crowdstrike.com.mm/agent''
                           then Some ''crowdstrike.com.mm'' else None),
      Number_toString = (\<lambda>x. ''1e+21''),
      now = ''2026-02-27T00:00:00.000Z''\<rparr>"

text \<open>Stores, a clock-and-uid environment and requests for the worked examples.\<close>

definition example_task :: "string \<Rightarrow> string \<Rightarrow> Task" where
  "example_task k st =
     \<lparr>task_id = k, task_contextId = ''ctx-1'', state = st,
      timestamp = ''2026-02-27T00:00:00.000Z'',
      status_message = agent_message ''m-1'' ''done'', artifacts = [],
      history = Some [agent_message ''m-2'' ''done''],
      gatraAgent = ''ADA'', gatraSkill = ''anomaly-detection'',
      processedAt = ''2026-02-27T00:00:00.000Z''\<rparr>"

definition example_server :: Server where
  "example_server =
     \<lparr>tasks = [(''t-1'', 0), (''t-2'', 1)],
      objs = [example_task ''t-1'' ''completed'', example_task ''t-2'' ''working'']\<rparr>"

definition full_server :: Server where
  "full_server =
     \<lparr>tasks = map (\<lambda>n. (''task-'' @ dec n, n)) [0..<50],
      objs = map (\<lambda>n. example_task (''task-'' @ dec n) ''completed'') [0..<50]\<rparr>"

definition example_env :: SendEnv where
  "example_env =
     \<lparr>date_now = ''2026-02-27T00:00:01.000Z'',
      generateAgentResponse = (\<lambda>a t s. ''[analysis]''),
      uid_context = ''ctx-new'', uid_task = ''task-new'', uid_status = ''msg-1'',
      uid_artifact = ''art-1'', uid_history_user = ''msg-2'', uid_history_agent = ''msg-3''\<rparr>"

definition example_send :: "string \<Rightarrow> string option \<Rightarrow> SendParams" where
  "example_send t sid =
     \<lparr>message = Some \<lparr>messageId = None, role = Some ''user'', parts = Some [text_part t],
                       taskId = None, contextId = None\<rparr>,
      historyLength = None, metadata_skillId = sid\<rparr>"

text \<open>The task a \<open>message/send\<close> call returned, if it returned one.\<close>

definition sent_task :: "(exn + Response) \<times> Server \<Rightarrow> Task option" where
  "sent_task res = (case fst res of Inr (Success j t) \<Rightarrow> Some t | _ \<Rightarrow> None)"

section \<open>Score to tier\<close>

text \<open>
  C1. For every number \<open>s\<close> the score-to-tier mapping returns STANDARD when \<open>s \<le> 34\<close>,
  ELEVATED when \<open>34 < s \<le> 60\<close> and CRITICAL when \<open>s > 60\<close>; 34.0 maps to STANDARD,
  34.0000001 to ELEVATED, 60.0 to ELEVATED and 60.0000001 to CRITICAL. The comparisons are
  the host language's, so the statement covers the infinities, and NaN (which satisfies
  none of the three conditions).
\<close>

theorem ciiScoreToTier_thresholds:
  "(js_le s (Num 34) \<longrightarrow> ciiScoreToTier s = STANDARD)
   \<and> (js_gt s (Num 34) \<and> js_le s (Num 60) \<longrightarrow> ciiScoreToTier s = ELEVATED)
   \<and> (js_gt s (Num 60) \<longrightarrow> ciiScoreToTier s = CRITICAL)
   \<and> ciiScoreToTier (Num 34.0) = STANDARD
   \<and> ciiScoreToTier (Num 34.0000001) = ELEVATED
   \<and> ciiScoreToTier (Num 60.0) = ELEVATED
   \<and> ciiScoreToTier (Num 60.0000001) = CRITICAL"
  by (cases s) (auto simp: ciiScoreToTier_def js_gt_def js_le_def)

theorem ciiScoreToTier_thresholds_witness:
  "js_le (Num 12.4) (Num 34) \<and> ciiScoreToTier (Num 12.4) = STANDARD
   \<and> js_gt (Num 38.2) (Num 34) \<and> js_le (Num 38.2) (Num 60) \<and> ciiScoreToTier (Num 38.2) = ELEVATED
   \<and> js_gt PosInfinity (Num 60) \<and> ciiScoreToTier PosInfinity = CRITICAL"
  using ciiScoreToTier_thresholds [of "Num 12.4"] ciiScoreToTier_thresholds [of "Num 38.2"]
    ciiScoreToTier_thresholds [of PosInfinity]
  by (simp add: js_gt_def js_le_def)

section \<open>Policy records\<close>

lemma length_dec_pos: "0 < length (dec n)"
  by (subst dec.simps) simp

lemma length_dec_small: "n < 10 \<Longrightarrow> dec n = [digit_char n]"
  by (subst dec.simps) simp

lemma dec_large: "10 \<le> n \<Longrightarrow> dec n = dec (n div 10) @ [digit_char (n mod 10)]"
  by (subst dec.simps) simp

lemma toFixed1_one_decimal:
  assumes "0 \<le> x" and "x < 10 ^ 21"
  shows "toFixed1 N (Num x) = one_decimal x"
proof -
  define n where "n = nat \<lfloor>x * 10 + 1 / 2\<rfloor>"
  show ?thesis
  proof (cases "n < 10")
    case True
    then have d: "dec n = [digit_char n]" by (rule length_dec_small)
    from True have "n div 10 = 0" "n mod 10 = n" by simp_all
    then have "dec (n div 10) = ''0''"
      by (simp add: length_dec_small digit_char_def)
    with True d assms show ?thesis
      by (simp add: toFixed1_def one_decimal_def Let_def n_def [symmetric])
  next
    case False
    then have d: "dec n = dec (n div 10) @ [digit_char (n mod 10)]"
      by (simp add: dec_large)
    have "0 < length (dec (n div 10))" by (rule length_dec_pos)
    with d assms show ?thesis
      by (simp add: toFixed1_def one_decimal_def Let_def n_def [symmetric])
  qed
qed

lemma one_decimal_nearest:
  assumes "0 \<le> x"
  shows "\<bar>real (nat \<lfloor>x * 10 + 1 / 2\<rfloor>) / 10 - x\<bar> \<le> 1 / 20"
proof -
  have "0 \<le> \<lfloor>x * 10 + 1 / 2\<rfloor>" using assms by simp
  then have "real (nat \<lfloor>x * 10 + 1 / 2\<rfloor>) = of_int \<lfloor>x * 10 + 1 / 2\<rfloor>" by simp
  then show ?thesis by linarith
qed

text \<open>
  C3, amended. For every country string \<open>c\<close> and score \<open>s\<close> the policy builder returns the
  static record of the tier of \<open>s\<close>, with tier, score and country equal to the inputs:
  STANDARD gives no signed request, no allowlist, no deep scan, 100 requests per hour, no
  error code, no error message, audit level standard; ELEVATED gives signed request, no
  allowlist, deep scan, 30 per hour, no error code or message, audit level enhanced;
  CRITICAL gives signed request, allowlist, deep scan, 10 per hour, error code -32050,
  audit level forensic and an error message that is the template around the country code
  \<open>c\<close> and a rendering of the score. A CRITICAL score is either a finite number above 60
  or \<open>Infinity\<close>, and the rendering is: for a finite score below \<open>10^21\<close>, the score to one
  decimal place (the nearest tenth, within 0.05 of the score); for a finite score of
  \<open>10^21\<close> or more, the runtime's default rendering of the number; for \<open>Infinity\<close>, the
  word \<open>Infinity\<close>.
\<close>

theorem buildTrustPolicy_table:
  "tier (buildTrustPolicy N c s) = ciiScoreToTier s
   \<and> ciiScore (buildTrustPolicy N c s) = s
   \<and> country (buildTrustPolicy N c s) = c
   \<and> (ciiScoreToTier s = STANDARD \<longrightarrow>
        buildTrustPolicy N c s =
          \<lparr>tier = STANDARD, ciiScore = s, country = c, requireJWS = False,
           requireAdminAllowlist = False, deepInjectionScan = False, maxRequestsPerHour = 100,
           errorCode = None, errorMessage = None, auditLevel = standard\<rparr>)
   \<and> (ciiScoreToTier s = ELEVATED \<longrightarrow>
        buildTrustPolicy N c s =
          \<lparr>tier = ELEVATED, ciiScore = s, country = c, requireJWS = True,
           requireAdminAllowlist = False, deepInjectionScan = True, maxRequestsPerHour = 30,
           errorCode = None, errorMessage = None, auditLevel = enhanced\<rparr>)
   \<and> (ciiScoreToTier s = CRITICAL \<longrightarrow>
        buildTrustPolicy N c s =
          \<lparr>tier = CRITICAL, ciiScore = s, country = c, requireJWS = True,
           requireAdminAllowlist = True, deepInjectionScan = True, maxRequestsPerHour = 10,
           errorCode = Some (- 32050),
           errorMessage = Some (critical_message c (toFixed1 N s)), auditLevel = forensic\<rparr>
        \<and> (s = PosInfinity \<or> (\<exists>x. s = Num x \<and> 60 < x))
        \<and> (\<forall>x. s = Num x \<and> x < 10 ^ 21 \<longrightarrow>
              errorMessage (buildTrustPolicy N c s) = Some (critical_message c (one_decimal x))
              \<and> \<bar>real (nat \<lfloor>x * 10 + 1 / 2\<rfloor>) / 10 - x\<bar> \<le> 1 / 20)
        \<and> (\<forall>x. s = Num x \<and> 10 ^ 21 \<le> x \<longrightarrow>
              errorMessage (buildTrustPolicy N c s) = Some (critical_message c (N x)))
        \<and> (s = PosInfinity \<longrightarrow>
              errorMessage (buildTrustPolicy N c s) = Some (critical_message c ''Infinity'')))"
proof -
  have dom: "s = PosInfinity \<or> (\<exists>x. s = Num x \<and> 60 < x)" if "ciiScoreToTier s = CRITICAL"
    using that by (cases s) (simp_all add: ciiScoreToTier_def js_gt_def split: if_splits)
  have crit: "errorMessage (buildTrustPolicy N c s) = Some (critical_message c (one_decimal x))
              \<and> \<bar>real (nat \<lfloor>x * 10 + 1 / 2\<rfloor>) / 10 - x\<bar> \<le> 1 / 20"
    if "ciiScoreToTier s = CRITICAL" and "s = Num x" and "x < 10 ^ 21" for x
  proof -
    from that have "60 < x"
      by (simp add: ciiScoreToTier_def js_gt_def split: if_splits)
    then have nn: "0 \<le> x" by simp
    from nn that have "errorMessage (buildTrustPolicy N c s) = Some (critical_message c (one_decimal x))"
      by (simp add: buildTrustPolicy_def toFixed1_one_decimal)
    with one_decimal_nearest [OF nn] show ?thesis
      by (rule_tac conjI)
  qed
  have big: "errorMessage (buildTrustPolicy N c s) = Some (critical_message c (N x))"
    if "ciiScoreToTier s = CRITICAL" and "s = Num x" and "10 ^ 21 \<le> x" for x
  proof -
    have "(0::real) < 10 ^ 21" by simp
    with that(3) have "\<not> x < 0" by linarith
    with that show ?thesis
      by (simp add: buildTrustPolicy_def toFixed1_def Let_def)
  qed
  have inf: "errorMessage (buildTrustPolicy N c s) = Some (critical_message c ''Infinity'')"
    if "ciiScoreToTier s = CRITICAL" and "s = PosInfinity"
    using that by (simp add: buildTrustPolicy_def toFixed1_def)
  have base: "tier (buildTrustPolicy N c s) = ciiScoreToTier s
      \<and> ciiScore (buildTrustPolicy N c s) = s \<and> country (buildTrustPolicy N c s) = c"
    by (cases "ciiScoreToTier s") (simp_all add: buildTrustPolicy_def)
  have std: "ciiScoreToTier s = STANDARD \<longrightarrow>
        buildTrustPolicy N c s =
          \<lparr>tier = STANDARD, ciiScore = s, country = c, requireJWS = False,
           requireAdminAllowlist = False, deepInjectionScan = False, maxRequestsPerHour = 100,
           errorCode = None, errorMessage = None, auditLevel = standard\<rparr>"
    by (simp add: buildTrustPolicy_def)
  have elev: "ciiScoreToTier s = ELEVATED \<longrightarrow>
        buildTrustPolicy N c s =
          \<lparr>tier = ELEVATED, ciiScore = s, country = c, requireJWS = True,
           requireAdminAllowlist = False, deepInjectionScan = True, maxRequestsPerHour = 30,
           errorCode = None, errorMessage = None, auditLevel = enhanced\<rparr>"
    by (simp add: buildTrustPolicy_def)
  have rec: "ciiScoreToTier s = CRITICAL \<longrightarrow>
        buildTrustPolicy N c s =
          \<lparr>tier = CRITICAL, ciiScore = s, country = c, requireJWS = True,
           requireAdminAllowlist = True, deepInjectionScan = True, maxRequestsPerHour = 10,
           errorCode = Some (- 32050),
           errorMessage = Some (critical_message c (toFixed1 N s)), auditLevel = forensic\<rparr>"
    by (simp add: buildTrustPolicy_def)
  from base std elev rec dom crit big inf show ?thesis
    by blast
qed

theorem buildTrustPolicy_table_witness:
  "ciiScoreToTier (Num 8.1) = STANDARD
   \<and> buildTrustPolicy (Number_toString example_runtime) ''SG'' (Num 8.1) =
       \<lparr>tier = STANDARD, ciiScore = Num 8.1, country = ''SG'', requireJWS = False,
        requireAdminAllowlist = False, deepInjectionScan = False, maxRequestsPerHour = 100,
        errorCode = None, errorMessage = None, auditLevel = standard\<rparr>
   \<and> ciiScoreToTier (Num 38.2) = ELEVATED
   \<and> buildTrustPolicy (Number_toString example_runtime) ''PH'' (Num 38.2) =
       \<lparr>tier = ELEVATED, ciiScore = Num 38.2, country = ''PH'', requireJWS = True,
        requireAdminAllowlist = False, deepInjectionScan = True, maxRequestsPerHour = 30,
        errorCode = None, errorMessage = None, auditLevel = enhanced\<rparr>
   \<and> ciiScoreToTier (Num 72.8) = CRITICAL
   \<and> (72.8 :: real) < 10 ^ 21
   \<and> buildTrustPolicy (Number_toString example_runtime) ''MM'' (Num 72.8) =
       \<lparr>tier = CRITICAL, ciiScore = Num 72.8, country = ''MM'', requireJWS = True,
        requireAdminAllowlist = True, deepInjectionScan = True, maxRequestsPerHour = 10,
        errorCode = Some (- 32050),
        errorMessage = Some (critical_message ''MM'' ''72.8''), auditLevel = forensic\<rparr>
   \<and> ciiScoreToTier (Num (10 ^ 21)) = CRITICAL
   \<and> (10 :: real) ^ 21 \<le> 10 ^ 21
   \<and> errorMessage (buildTrustPolicy (Number_toString example_runtime) ''MM'' (Num (10 ^ 21)))
       = Some (critical_message ''MM'' ''1e+21'')
   \<and> ciiScoreToTier PosInfinity = CRITICAL
   \<and> errorMessage (buildTrustPolicy (Number_toString example_runtime) ''MM'' PosInfinity)
       = Some (critical_message ''MM'' ''Infinity'')"
proof -
  have t1: "ciiScoreToTier (Num 8.1) = STANDARD" by (simp add: ciiScoreToTier_def js_gt_def)
  have t2: "ciiScoreToTier (Num 38.2) = ELEVATED" by (simp add: ciiScoreToTier_def js_gt_def)
  have t3: "ciiScoreToTier (Num 72.8) = CRITICAL" by (simp add: ciiScoreToTier_def js_gt_def)
  have t4: "ciiScoreToTier (Num (10 ^ 21)) = CRITICAL" by (simp add: ciiScoreToTier_def js_gt_def)
  have t5: "ciiScoreToTier PosInfinity = CRITICAL" by (simp add: ciiScoreToTier_def js_gt_def)
  have r: "one_decimal 72.8 = ''72.8''"
    by (simp add: one_decimal_def Let_def dec.simps digit_char_def)
  have n: "Number_toString example_runtime (10 ^ 21) = ''1e+21''"
    by (simp add: example_runtime_def)
  note mm = buildTrustPolicy_table [of "Number_toString example_runtime" "''MM''" "Num 72.8"]
  from mm t3 have q: "\<forall>x. Num 72.8 = Num x \<and> x < 10 ^ 21 \<longrightarrow>
      errorMessage (buildTrustPolicy (Number_toString example_runtime) ''MM'' (Num 72.8))
        = Some (critical_message ''MM'' (one_decimal x))
      \<and> \<bar>real (nat \<lfloor>x * 10 + 1 / 2\<rfloor>) / 10 - x\<bar> \<le> 1 / 20"
    by blast
  have "Num 72.8 = Num 72.8 \<and> (72.8 :: real) < 10 ^ 21" by simp
  with q have "errorMessage (buildTrustPolicy (Number_toString example_runtime) ''MM'' (Num 72.8))
        = Some (critical_message ''MM'' (one_decimal 72.8))"
    by blast
  then have m: "errorMessage (buildTrustPolicy (Number_toString example_runtime) ''MM'' (Num 72.8))
        = Some (critical_message ''MM'' ''72.8'')"
    by (simp only: r)
  from mm t3 have "buildTrustPolicy (Number_toString example_runtime) ''MM'' (Num 72.8) =
       \<lparr>tier = CRITICAL, ciiScore = Num 72.8, country = ''MM'', requireJWS = True,
        requireAdminAllowlist = True, deepInjectionScan = True, maxRequestsPerHour = 10,
        errorCode = Some (- 32050),
        errorMessage = Some (critical_message ''MM''
          (toFixed1 (Number_toString example_runtime) (Num 72.8))), auditLevel = forensic\<rparr>"
    by blast
  with m have e: "buildTrustPolicy (Number_toString example_runtime) ''MM'' (Num 72.8) =
       \<lparr>tier = CRITICAL, ciiScore = Num 72.8, country = ''MM'', requireJWS = True,
        requireAdminAllowlist = True, deepInjectionScan = True, maxRequestsPerHour = 10,
        errorCode = Some (- 32050),
        errorMessage = Some (critical_message ''MM'' ''72.8''), auditLevel = forensic\<rparr>"
    by simp
  note bg = buildTrustPolicy_table [of "Number_toString example_runtime" "''MM''" "Num (10 ^ 21)"]
  from bg t4 have "\<forall>x. Num (10 ^ 21) = Num x \<and> 10 ^ 21 \<le> x \<longrightarrow>
      errorMessage (buildTrustPolicy (Number_toString example_runtime) ''MM'' (Num (10 ^ 21)))
        = Some (critical_message ''MM'' (Number_toString example_runtime x))"
    by blast
  then have "errorMessage (buildTrustPolicy (Number_toString example_runtime) ''MM'' (Num (10 ^ 21)))
        = Some (critical_message ''MM'' (Number_toString example_runtime (10 ^ 21)))"
    by blast
  then have b: "errorMessage (buildTrustPolicy (Number_toString example_runtime) ''MM'' (Num (10 ^ 21)))
        = Some (critical_message ''MM'' ''1e+21'')"
    by (simp only: n)
  from buildTrustPolicy_table [of "Number_toString example_runtime" "''MM''" PosInfinity] t5
  have i: "errorMessage (buildTrustPolicy (Number_toString example_runtime) ''MM'' PosInfinity)
       = Some (critical_message ''MM'' ''Infinity'')"
    by blast
  show ?thesis
    using t1 t2 t3 t4 t5 e b i
      buildTrustPolicy_table [of "Number_toString example_runtime" "''SG''" "Num 8.1"]
      buildTrustPolicy_table [of "Number_toString example_runtime" "''PH''" "Num 38.2"]
    by simp
qed

text \<open>
  The claim as first stated, for every score, fails where \<open>toFixed\<close> leaves decimal
  notation: at the score \<open>Infinity\<close> the message reads "CII Infinity", and at \<open>10^21\<close>, on a
  runtime that renders this number \<open>1e+21\<close> as ECMAScript prescribes, it reads "CII 1e+21"
  where one decimal place would give 1000000000000000000000.0.
\<close>

theorem buildTrustPolicy_unbounded_score_counterexample:
  "errorMessage (buildTrustPolicy (\<lambda>x. ''1e+21'') ''MM'' PosInfinity)
      = Some (critical_message ''MM'' ''Infinity'')
   \<and> errorMessage (buildTrustPolicy (\<lambda>x. ''1e+21'') ''MM'' (Num (10 ^ 21)))
      = Some (critical_message ''MM'' ''1e+21'')
   \<and> one_decimal (10 ^ 21) = ''1000000000000000000000.0''
   \<and> critical_message ''MM'' ''1e+21'' \<noteq> critical_message ''MM'' (one_decimal (10 ^ 21))"
proof -
  have a: "one_decimal (10 ^ 21) = ''1000000000000000000000.0''"
    by (simp add: one_decimal_def Let_def dec.simps digit_char_def)
  have b: "errorMessage (buildTrustPolicy (\<lambda>x. ''1e+21'') ''MM'' PosInfinity)
      = Some (critical_message ''MM'' ''Infinity'')"
    by (simp add: buildTrustPolicy_def ciiScoreToTier_def js_gt_def toFixed1_def)
  have c: "errorMessage (buildTrustPolicy (\<lambda>x. ''1e+21'') ''MM'' (Num (10 ^ 21)))
      = Some (critical_message ''MM'' ''1e+21'')"
    by (simp add: buildTrustPolicy_def ciiScoreToTier_def js_gt_def toFixed1_def Let_def)
  have d: "critical_message ''MM'' ''1e+21'' \<noteq> critical_message ''MM'' (one_decimal (10 ^ 21))"
    unfolding a by (simp add: critical_message_def)
  from a b c d show ?thesis by blast
qed

section \<open>Decision\<close>

text \<open>
  C2. For every request, allowlist and agent identifier, the decision satisfies
  \<open>allowed = (tier \<noteq> CRITICAL \<or> isInAllowlist)\<close>, where \<open>isInAllowlist\<close> holds exactly when
  the allowlist contains the agent identifier or the wildcard \<open>*\<close>; so every STANDARD and
  every ELEVATED evaluation is allowed, and a CRITICAL evaluation is refused exactly when
  the agent is not allowlisted.
\<close>

theorem evaluate_allowed:
  "allowed (evaluateCiiTrustPolicy rt table req allowlist agentId)
     = (tier (policy (evaluateCiiTrustPolicy rt table req allowlist agentId)) \<noteq> CRITICAL
        \<or> isInAllowlist (evaluateCiiTrustPolicy rt table req allowlist agentId))
   \<and> isInAllowlist (evaluateCiiTrustPolicy rt table req allowlist agentId)
     = (agentId \<in> allowlist \<or> ''*'' \<in> allowlist)
   \<and> (tier (policy (evaluateCiiTrustPolicy rt table req allowlist agentId)) = STANDARD
        \<longrightarrow> allowed (evaluateCiiTrustPolicy rt table req allowlist agentId))
   \<and> (tier (policy (evaluateCiiTrustPolicy rt table req allowlist agentId)) = ELEVATED
        \<longrightarrow> allowed (evaluateCiiTrustPolicy rt table req allowlist agentId))
   \<and> (tier (policy (evaluateCiiTrustPolicy rt table req allowlist agentId)) = CRITICAL
        \<longrightarrow> (\<not> allowed (evaluateCiiTrustPolicy rt table req allowlist agentId))
             = (agentId \<notin> allowlist \<and> ''*'' \<notin> allowlist))"
  by (simp add: evaluateCiiTrustPolicy_def Let_def)


theorem evaluate_allowed_witness:
  "tier (policy (evaluateCiiTrustPolicy example_runtime COUNTRY_CII_OVERRIDES
       \<lparr>headers = [''x-vercel-ip-country'' \<mapsto> ''SG''], agentCardUrl = None\<rparr> {} ''agent:sentinel-sg''))
     = STANDARD
   \<and> allowed (evaluateCiiTrustPolicy example_runtime COUNTRY_CII_OVERRIDES
       \<lparr>headers = [''x-vercel-ip-country'' \<mapsto> ''SG''], agentCardUrl = None\<rparr> {} ''agent:sentinel-sg'')
   \<and> tier (policy (evaluateCiiTrustPolicy example_runtime COUNTRY_CII_OVERRIDES
       \<lparr>headers = [''x-vercel-ip-country'' \<mapsto> ''PH''], agentCardUrl = None\<rparr> {} ''agent:qualys-ph''))
     = ELEVATED
   \<and> allowed (evaluateCiiTrustPolicy example_runtime COUNTRY_CII_OVERRIDES
       \<lparr>headers = [''x-vercel-ip-country'' \<mapsto> ''PH''], agentCardUrl = None\<rparr> {} ''agent:qualys-ph'')
   \<and> tier (policy (evaluateCiiTrustPolicy example_runtime COUNTRY_CII_OVERRIDES
       \<lparr>headers = [''x-vercel-ip-country'' \<mapsto> ''MM''], agentCardUrl = None\<rparr> {} ''agent:unknown''))
     = CRITICAL
   \<and> \<not> allowed (evaluateCiiTrustPolicy example_runtime COUNTRY_CII_OVERRIDES
       \<lparr>headers = [''x-vercel-ip-country'' \<mapsto> ''MM''], agentCardUrl = None\<rparr> {} ''agent:unknown'')
   \<and> allowed (evaluateCiiTrustPolicy example_runtime COUNTRY_CII_OVERRIDES
       \<lparr>headers = [''x-vercel-ip-country'' \<mapsto> ''MM''], agentCardUrl = None\<rparr>
       {''agent:ioh-myanmar-liaison''} ''agent:ioh-myanmar-liaison'')"
proof -
  have sg: "tier (policy (evaluateCiiTrustPolicy example_runtime COUNTRY_CII_OVERRIDES
       \<lparr>headers = [''x-vercel-ip-country'' \<mapsto> ''SG''], agentCardUrl = None\<rparr> al ag)) = STANDARD"
    for al ag
    by (simp add: evaluateCiiTrustPolicy_def resolveAgentCountry_def two_chars_def
        toUpperCase_def upper_char_def Let_def getCiiScore_def COUNTRY_CII_OVERRIDES_def
        buildTrustPolicy_def ciiScoreToTier_def js_gt_def)
  have ph: "tier (policy (evaluateCiiTrustPolicy example_runtime COUNTRY_CII_OVERRIDES
       \<lparr>headers = [''x-vercel-ip-country'' \<mapsto> ''PH''], agentCardUrl = None\<rparr> al ag)) = ELEVATED"
    for al ag
    by (simp add: evaluateCiiTrustPolicy_def resolveAgentCountry_def two_chars_def
        toUpperCase_def upper_char_def Let_def getCiiScore_def COUNTRY_CII_OVERRIDES_def
        buildTrustPolicy_def ciiScoreToTier_def js_gt_def)
  have mm: "tier (policy (evaluateCiiTrustPolicy example_runtime COUNTRY_CII_OVERRIDES
       \<lparr>headers = [''x-vercel-ip-country'' \<mapsto> ''MM''], agentCardUrl = None\<rparr> al ag)) = CRITICAL"
    for al ag
    by (simp add: evaluateCiiTrustPolicy_def resolveAgentCountry_def two_chars_def
        toUpperCase_def upper_char_def Let_def getCiiScore_def COUNTRY_CII_OVERRIDES_def
        buildTrustPolicy_def ciiScoreToTier_def js_gt_def)
  show ?thesis
    using sg ph mm
      evaluate_allowed [of example_runtime COUNTRY_CII_OVERRIDES
        "\<lparr>headers = [''x-vercel-ip-country'' \<mapsto> ''SG''], agentCardUrl = None\<rparr>" "{}"
        "''agent:sentinel-sg''"]
      evaluate_allowed [of example_runtime COUNTRY_CII_OVERRIDES
        "\<lparr>headers = [''x-vercel-ip-country'' \<mapsto> ''PH''], agentCardUrl = None\<rparr>" "{}"
        "''agent:qualys-ph''"]
      evaluate_allowed [of example_runtime COUNTRY_CII_OVERRIDES
        "\<lparr>headers = [''x-vercel-ip-country'' \<mapsto> ''MM''], agentCardUrl = None\<rparr>" "{}"
        "''agent:unknown''"]
      evaluate_allowed [of example_runtime COUNTRY_CII_OVERRIDES
        "\<lparr>headers = [''x-vercel-ip-country'' \<mapsto> ''MM''], agentCardUrl = None\<rparr>"
        "{''agent:ioh-myanmar-liaison''}" "''agent:ioh-myanmar-liaison''"]
    by simp
qed

section \<open>Facts about strings\<close>

lemma upper_upper: "upper_char (upper_char c) = upper_char c"
  by (simp add: upper_char_def split: option.splits if_splits)

lemma upper_lower: "upper_char (lower_char c) = upper_char c"
proof (cases "c \<in> set ''ABCDEFGHIJKLMNOPQRSTUVWXYZ''")
  case True
  then show ?thesis
    by (auto simp: upper_char_def lower_char_def)
next
  case False
  then have "map_of (zip ''ABCDEFGHIJKLMNOPQRSTUVWXYZ'' ''abcdefghijklmnopqrstuvwxyz'') c = None"
    by (subst map_of_zip_is_None) simp_all
  then show ?thesis by (simp add: lower_char_def)
qed

lemma toUpperCase_idem: "toUpperCase (toUpperCase s) = toUpperCase s"
  by (simp add: toUpperCase_def upper_upper)

lemma toUpperCase_lower: "toUpperCase (toLowerCase s) = toUpperCase s"
  by (simp add: toUpperCase_def toLowerCase_def upper_lower)

lemma endsWith_same_length:
  assumes "endsWith h t" and "endsWith h t'" and "length t = length t'"
  shows "t = t'"
proof -
  have e1: "drop (length h - length t) h = t"
    using assms(1) [unfolded endsWith_def] by (rule conjunct2)
  have e2: "drop (length h - length t') h = t'"
    using assms(2) [unfolded endsWith_def] by (rule conjunct2)
  have "t = drop (length h - length t) h" using e1 by (rule sym)
  also have "\<dots> = drop (length h - length t') h" by (simp only: assms(3))
  also have "\<dots> = t'" by (rule e2)
  finally show ?thesis .
qed

section \<open>Facts about the ccTLD table\<close>

lemma tld_lengths: "(t, code) \<in> set TLD_TO_COUNTRY \<Longrightarrow> length t = 3 \<and> code \<noteq> []"
  by (auto simp: TLD_TO_COUNTRY_def)

lemma tld_distinct: "distinct (map fst TLD_TO_COUNTRY)"
  by (simp add: TLD_TO_COUNTRY_def)

lemma find_first_unique:
  "distinct (map fst xs) \<Longrightarrow> (k, v) \<in> set xs \<Longrightarrow> P k
   \<Longrightarrow> (\<And>k' v'. (k', v') \<in> set xs \<Longrightarrow> P k' \<Longrightarrow> k' = k)
   \<Longrightarrow> find (\<lambda>(a, b). P a) xs = Some (k, v)"
proof (induction xs)
  case Nil
  then show ?case by simp
next
  case (Cons p ps)
  obtain a b where p: "p = (a, b)" by (cases p)
  show ?case
  proof (cases "P a")
    case True
    have "(a, b) \<in> set (p # ps)" using p by simp
    then have ak: "a = k" using Cons.prems(4) True by blast
    have "b = v"
    proof (rule ccontr)
      assume "b \<noteq> v"
      with Cons.prems(2) p ak have "(k, v) \<in> set ps" by simp
      then have "k \<in> fst ` set ps" by force
      with Cons.prems(1) p ak show False by simp
    qed
    with True p ak show ?thesis by simp
  next
    case False
    have "a \<noteq> k" using False Cons.prems(3) by blast
    with Cons.prems(2) p have in_ps: "(k, v) \<in> set ps" by simp
    have d: "distinct (map fst ps)" using Cons.prems(1) by simp
    have u: "k' = k" if "(k', v') \<in> set ps" and "P k'" for k' v'
    proof -
      from that(1) have "(k', v') \<in> set (p # ps)" by simp
      then show ?thesis using that(2) by (rule Cons.prems(4))
    qed
    have "find (\<lambda>(a, b). P a) ps = Some (k, v)"
      by (rule Cons.IH [OF d in_ps Cons.prems(3) u])
    with False p show ?thesis by simp
  qed
qed

lemma extractTldCountry_match:
  assumes "U url = Some host" and "(t, code) \<in> set TLD_TO_COUNTRY"
    and "endsWith (toLowerCase host) t"
  shows "extractTldCountry U url = Some code"
proof -
  have "find (\<lambda>(a, b). endsWith (toLowerCase host) a) TLD_TO_COUNTRY = Some (t, code)"
  proof (rule find_first_unique [OF tld_distinct assms(2)])
    show "endsWith (toLowerCase host) t" by (rule assms(3))
  next
    fix k' v'
    assume m: "(k', v') \<in> set TLD_TO_COUNTRY" and e: "endsWith (toLowerCase host) k'"
    have "length k' = length t"
      using tld_lengths [OF m] tld_lengths [OF assms(2)] by simp
    with e assms(3) show "k' = t" by (rule endsWith_same_length)
  qed
  with assms(1) show ?thesis by (simp add: extractTldCountry_def)
qed

lemma extractTldCountry_none:
  assumes "U url = Some host"
    and "\<forall>(t, code) \<in> set TLD_TO_COUNTRY. \<not> endsWith (toLowerCase host) t"
  shows "extractTldCountry U url = None"
proof -
  from assms(2) have "find (\<lambda>(t, code). endsWith (toLowerCase host) t) TLD_TO_COUNTRY = None"
    by (auto simp: find_None_iff)
  with assms(1) show ?thesis by (simp add: extractTldCountry_def)
qed

lemma tldCode_of_cctld:
  assumes "code \<in> set (cctld_codes U url)"
  shows "(if truthy url then extractTldCountry U (the url) else None) = Some code \<and> code \<noteq> []"
proof -
  from assms obtain u where u: "url = Some u" "u \<noteq> []"
    by (auto simp: cctld_codes_def split: option.splits if_splits)
  with assms obtain host where host: "U u = Some host"
    by (cases "U u") (auto simp: cctld_codes_def)
  with assms u obtain t where t: "(t, code) \<in> set TLD_TO_COUNTRY" "endsWith (toLowerCase host) t"
    by (auto simp: cctld_codes_def)
  from host t have "extractTldCountry U u = Some code" by (rule extractTldCountry_match)
  moreover from t(1) have "code \<noteq> []" by (simp add: tld_lengths)
  ultimately show ?thesis using u by (simp add: truthy_def)
qed

lemma tldCode_of_no_cctld:
  assumes "cctld_codes U url = []"
  shows "(if truthy url then extractTldCountry U (the url) else None) = None"
proof (cases "truthy url")
  case False
  then show ?thesis by simp
next
  case True
  then obtain u where u: "url = Some u" "u \<noteq> []"
    by (auto simp: truthy_def split: option.splits)
  show ?thesis
  proof (cases "U u")
    case None
    with u show ?thesis by (simp add: extractTldCountry_def truthy_def)
  next
    case (Some host)
    with assms u have "filter (\<lambda>(t, code). endsWith (toLowerCase host) t) TLD_TO_COUNTRY = []"
      by (simp add: cctld_codes_def)
    then have "\<forall>(t, code) \<in> set TLD_TO_COUNTRY. \<not> endsWith (toLowerCase host) t"
      by (auto simp: filter_empty_conv)
    with Some have "extractTldCountry U u = None" by (rule extractTldCountry_none)
    with u show ?thesis by (simp add: truthy_def)
  qed
qed

section \<open>Country resolution\<close>

text \<open>
  C4. Country resolution returns one resolution by first-match-wins priority: the primary
  geo header when it has exactly two characters (upper-cased), whatever the other signals
  say, so it overrides a conflicting self-reported header; else the secondary geo header;
  else the country of the ccTLD suffix that ends the URL's host name; else the
  self-reported header; else \<open>XX\<close> with source unknown. A URL that does not parse gives no
  ccTLD match, and resolution goes on to the next signal instead of failing. The five
  conditions are exhaustive and exclusive, and the resolver is a total function.
\<close>

theorem resolveAgentCountry_priority:
  "(two_chars (headers req ''x-vercel-ip-country'') \<longrightarrow>
      resolveAgentCountry U req =
        \<lparr>countryCode = toUpperCase (the (headers req ''x-vercel-ip-country'')),
         source = vercel_geo\<rparr>)
   \<and> (\<not> two_chars (headers req ''x-vercel-ip-country'')
        \<and> two_chars (headers req ''cf-ipcountry'') \<and> headers req ''cf-ipcountry'' \<noteq> Some ''XX'' \<longrightarrow>
      resolveAgentCountry U req =
        \<lparr>countryCode = toUpperCase (the (headers req ''cf-ipcountry'')), source = cf_geo\<rparr>)
   \<and> (\<not> two_chars (headers req ''x-vercel-ip-country'')
        \<and> \<not> (two_chars (headers req ''cf-ipcountry'') \<and> headers req ''cf-ipcountry'' \<noteq> Some ''XX'')
        \<and> code \<in> set (cctld_codes U (agentCardUrl req)) \<longrightarrow>
      resolveAgentCountry U req = \<lparr>countryCode = code, source = tld\<rparr>)
   \<and> (\<not> two_chars (headers req ''x-vercel-ip-country'')
        \<and> \<not> (two_chars (headers req ''cf-ipcountry'') \<and> headers req ''cf-ipcountry'' \<noteq> Some ''XX'')
        \<and> cctld_codes U (agentCardUrl req) = []
        \<and> two_chars (headers req ''x-agent-country'') \<longrightarrow>
      resolveAgentCountry U req =
        \<lparr>countryCode = toUpperCase (the (headers req ''x-agent-country'')),
         source = self_reported\<rparr>)
   \<and> (\<not> two_chars (headers req ''x-vercel-ip-country'')
        \<and> \<not> (two_chars (headers req ''cf-ipcountry'') \<and> headers req ''cf-ipcountry'' \<noteq> Some ''XX'')
        \<and> cctld_codes U (agentCardUrl req) = []
        \<and> \<not> two_chars (headers req ''x-agent-country'') \<longrightarrow>
      resolveAgentCountry U req = \<lparr>countryCode = ''XX'', source = unknown\<rparr>)
   \<and> (agentCardUrl req = Some url \<and> U url = None \<longrightarrow> cctld_codes U (agentCardUrl req) = [])"
proof -
  have p1: "two_chars (headers req ''x-vercel-ip-country'') \<longrightarrow>
      resolveAgentCountry U req =
        \<lparr>countryCode = toUpperCase (the (headers req ''x-vercel-ip-country'')),
         source = vercel_geo\<rparr>"
    by (simp add: resolveAgentCountry_def Let_def)
  have p2: "\<not> two_chars (headers req ''x-vercel-ip-country'')
        \<and> two_chars (headers req ''cf-ipcountry'') \<and> headers req ''cf-ipcountry'' \<noteq> Some ''XX'' \<longrightarrow>
      resolveAgentCountry U req =
        \<lparr>countryCode = toUpperCase (the (headers req ''cf-ipcountry'')), source = cf_geo\<rparr>"
    by (simp add: resolveAgentCountry_def Let_def)
  have p3: "\<not> two_chars (headers req ''x-vercel-ip-country'')
        \<and> \<not> (two_chars (headers req ''cf-ipcountry'') \<and> headers req ''cf-ipcountry'' \<noteq> Some ''XX'')
        \<and> code \<in> set (cctld_codes U (agentCardUrl req)) \<longrightarrow>
      resolveAgentCountry U req = \<lparr>countryCode = code, source = tld\<rparr>"
  proof (intro impI, elim conjE)
    assume a: "\<not> two_chars (headers req ''x-vercel-ip-country'')"
      and b: "\<not> (two_chars (headers req ''cf-ipcountry'') \<and> headers req ''cf-ipcountry'' \<noteq> Some ''XX'')"
      and c: "code \<in> set (cctld_codes U (agentCardUrl req))"
    from tldCode_of_cctld [OF c]
    have t: "(if truthy (agentCardUrl req) then extractTldCountry U (the (agentCardUrl req)) else None)
               = Some code" and n: "code \<noteq> []" by simp_all
    have tr: "truthy (Some code)" using n by (simp add: truthy_def)
    show "resolveAgentCountry U req = \<lparr>countryCode = code, source = tld\<rparr>"
      unfolding resolveAgentCountry_def Let_def t using a b tr by auto
  qed
  have none: "\<not> truthy (None :: string option)" by (simp add: truthy_def)
  have p4: "\<not> two_chars (headers req ''x-vercel-ip-country'')
        \<and> \<not> (two_chars (headers req ''cf-ipcountry'') \<and> headers req ''cf-ipcountry'' \<noteq> Some ''XX'')
        \<and> cctld_codes U (agentCardUrl req) = []
        \<and> two_chars (headers req ''x-agent-country'') \<longrightarrow>
      resolveAgentCountry U req =
        \<lparr>countryCode = toUpperCase (the (headers req ''x-agent-country'')),
         source = self_reported\<rparr>"
  proof (intro impI, elim conjE)
    assume a: "\<not> two_chars (headers req ''x-vercel-ip-country'')"
      and b: "\<not> (two_chars (headers req ''cf-ipcountry'') \<and> headers req ''cf-ipcountry'' \<noteq> Some ''XX'')"
      and c: "cctld_codes U (agentCardUrl req) = []"
      and d: "two_chars (headers req ''x-agent-country'')"
    note t = tldCode_of_no_cctld [OF c]
    show "resolveAgentCountry U req =
        \<lparr>countryCode = toUpperCase (the (headers req ''x-agent-country'')),
         source = self_reported\<rparr>"
      unfolding resolveAgentCountry_def Let_def t using a b d none by auto
  qed
  have p5: "\<not> two_chars (headers req ''x-vercel-ip-country'')
        \<and> \<not> (two_chars (headers req ''cf-ipcountry'') \<and> headers req ''cf-ipcountry'' \<noteq> Some ''XX'')
        \<and> cctld_codes U (agentCardUrl req) = []
        \<and> \<not> two_chars (headers req ''x-agent-country'') \<longrightarrow>
      resolveAgentCountry U req = \<lparr>countryCode = ''XX'', source = unknown\<rparr>"
  proof (intro impI, elim conjE)
    assume a: "\<not> two_chars (headers req ''x-vercel-ip-country'')"
      and b: "\<not> (two_chars (headers req ''cf-ipcountry'') \<and> headers req ''cf-ipcountry'' \<noteq> Some ''XX'')"
      and c: "cctld_codes U (agentCardUrl req) = []"
      and d: "\<not> two_chars (headers req ''x-agent-country'')"
    note t = tldCode_of_no_cctld [OF c]
    show "resolveAgentCountry U req = \<lparr>countryCode = ''XX'', source = unknown\<rparr>"
      unfolding resolveAgentCountry_def Let_def t using a b d none by auto
  qed
  have p6: "agentCardUrl req = Some url \<and> U url = None \<longrightarrow> cctld_codes U (agentCardUrl req) = []"
    by (simp add: cctld_codes_def)
  from p1 p2 p3 p4 p5 p6 show ?thesis by blast
qed


theorem resolveAgentCountry_priority_witness:
  "two_chars ([''x-vercel-ip-country'' \<mapsto> ''mm'', ''x-agent-country'' \<mapsto> ''SG''] ''x-vercel-ip-country'')
   \<and> resolveAgentCountry (URL_hostname example_runtime)
         \<lparr>headers = [''x-vercel-ip-country'' \<mapsto> ''mm'', ''x-agent-country'' \<mapsto> ''SG''],
          agentCardUrl = None\<rparr>
       = \<lparr>countryCode = ''MM'', source = vercel_geo\<rparr>
   \<and> ''MM'' \<in> set (cctld_codes (URL_hostname example_runtime) (Some ''https://crowdstrike.com.mm/agent''))
   \<and> resolveAgentCountry (URL_hostname example_runtime)
         \<lparr>headers = Map.empty, agentCardUrl = Some ''https://crowdstrike.com.mm/agent''\<rparr>
       = \<lparr>countryCode = ''MM'', source = tld\<rparr>
   \<and> cctld_codes (URL_hostname example_runtime) (Some ''http://[broken'') = []
   \<and> resolveAgentCountry (URL_hostname example_runtime)
         \<lparr>headers = [''x-agent-country'' \<mapsto> ''pk''], agentCardUrl = Some ''http://[broken''\<rparr>
       = \<lparr>countryCode = ''PK'', source = self_reported\<rparr>"
proof -
  have c1: "''MM'' \<in> set (cctld_codes (URL_hostname example_runtime) (Some ''https://crowdstrike.com.mm/agent''))"
    by (simp add: cctld_codes_def example_runtime_def TLD_TO_COUNTRY_def endsWith_def
        toLowerCase_def lower_char_def)
  have c2: "cctld_codes (URL_hostname example_runtime) (Some ''http://[broken'') = []"
    by (simp add: cctld_codes_def example_runtime_def)
  show ?thesis
    using c1 c2
      resolveAgentCountry_priority [of
        "\<lparr>headers = [''x-vercel-ip-country'' \<mapsto> ''mm'', ''x-agent-country'' \<mapsto> ''SG''],
          agentCardUrl = None\<rparr>" "URL_hostname example_runtime"]
      resolveAgentCountry_priority [of
        "\<lparr>headers = Map.empty, agentCardUrl = Some ''https://crowdstrike.com.mm/agent''\<rparr>"
        "URL_hostname example_runtime" "''MM''"]
      resolveAgentCountry_priority [of
        "\<lparr>headers = [''x-agent-country'' \<mapsto> ''pk''], agentCardUrl = Some ''http://[broken''\<rparr>"
        "URL_hostname example_runtime"]
    by (simp add: two_chars_def toUpperCase_def upper_char_def)
qed

section \<open>Score lookup\<close>

text \<open>
  C5. For every two-letter country code whose upper-case form is absent from the score
  table (the unknown code \<open>XX\<close> in the shipped table is one), the lookup returns 0, the tier
  of that score is STANDARD, and the decision for a request resolved to that code has tier
  STANDARD and is allowed; the lookup is case-insensitive: a code, its lower-case form and
  its upper-case form get the same score.
\<close>

theorem getCiiScore_fail_open:
  "(length code = 2 \<and> table (toUpperCase code) = None \<longrightarrow>
      getCiiScore table code = Num 0
      \<and> ciiScoreToTier (getCiiScore table code) = STANDARD
      \<and> (countryCode (resolveAgentCountry (URL_hostname rt) req) = code \<longrightarrow>
           tier (policy (evaluateCiiTrustPolicy rt table req allowlist agentId)) = STANDARD
           \<and> allowed (evaluateCiiTrustPolicy rt table req allowlist agentId)))
   \<and> getCiiScore table (toLowerCase code) = getCiiScore table code
   \<and> getCiiScore table (toUpperCase code) = getCiiScore table code"
proof -
  have z: "ciiScoreToTier (Num 0) = STANDARD"
    by (simp add: ciiScoreToTier_def js_gt_def)
  have a: "getCiiScore table code = Num 0" if "table (toUpperCase code) = None"
    using that by (simp add: getCiiScore_def)
  have b: "tier (policy (evaluateCiiTrustPolicy rt table req allowlist agentId)) = STANDARD
           \<and> allowed (evaluateCiiTrustPolicy rt table req allowlist agentId)"
    if "table (toUpperCase code) = None"
      and "countryCode (resolveAgentCountry (URL_hostname rt) req) = code"
    using that a z by (simp add: evaluateCiiTrustPolicy_def Let_def buildTrustPolicy_def)
  have c: "getCiiScore table (toLowerCase code) = getCiiScore table code"
    by (simp add: getCiiScore_def toUpperCase_lower)
  have d: "getCiiScore table (toUpperCase code) = getCiiScore table code"
    by (simp add: getCiiScore_def toUpperCase_idem)
  from a b c d z show ?thesis by simp
qed

theorem getCiiScore_fail_open_witness:
  "length ''XX'' = 2 \<and> COUNTRY_CII_OVERRIDES (toUpperCase ''XX'') = None
   \<and> getCiiScore COUNTRY_CII_OVERRIDES ''XX'' = Num 0
   \<and> countryCode (resolveAgentCountry (URL_hostname example_runtime)
         \<lparr>headers = Map.empty, agentCardUrl = None\<rparr>) = ''XX''
   \<and> tier (policy (evaluateCiiTrustPolicy example_runtime COUNTRY_CII_OVERRIDES
         \<lparr>headers = Map.empty, agentCardUrl = None\<rparr> {} ''agent:anonymous'')) = STANDARD
   \<and> allowed (evaluateCiiTrustPolicy example_runtime COUNTRY_CII_OVERRIDES
         \<lparr>headers = Map.empty, agentCardUrl = None\<rparr> {} ''agent:anonymous'')
   \<and> getCiiScore COUNTRY_CII_OVERRIDES ''mm'' = Num 72.8
   \<and> getCiiScore COUNTRY_CII_OVERRIDES (toUpperCase ''mm'') = Num 72.8"
proof -
  have h1: "COUNTRY_CII_OVERRIDES (toUpperCase ''XX'') = None"
    by (simp add: COUNTRY_CII_OVERRIDES_def toUpperCase_def upper_char_def)
  have h2: "countryCode (resolveAgentCountry (URL_hostname example_runtime)
         \<lparr>headers = Map.empty, agentCardUrl = None\<rparr>) = ''XX''"
    by (simp add: resolveAgentCountry_def Let_def two_chars_def truthy_def)
  have h3: "getCiiScore COUNTRY_CII_OVERRIDES ''mm'' = Num 72.8"
    by (simp add: getCiiScore_def COUNTRY_CII_OVERRIDES_def toUpperCase_def upper_char_def)
  show ?thesis
    using h1 h2 h3
      getCiiScore_fail_open [of "''XX''" COUNTRY_CII_OVERRIDES example_runtime
        "\<lparr>headers = Map.empty, agentCardUrl = None\<rparr>" "{}" "''agent:anonymous''"]
      getCiiScore_fail_open [of "''mm''" COUNTRY_CII_OVERRIDES]
    by simp
qed

section \<open>The secondary geo header in the edge copy\<close>

text \<open>
  C9. A request with no primary geo header and the secondary header \<open>sg\<close>: the edge copy
  of the resolver returns \<open>SG\<close> under the label \<open>vercel-geo\<close>, the very label it gives a
  primary header, where the TypeScript source labels the same request \<open>cf-geo\<close>.
\<close>

theorem resolveAgentCountry_edge_secondary_label:
  "resolveAgentCountry_edge U [''cf-ipcountry'' \<mapsto> ''sg''] None
     = \<lparr>countryCode = ''SG'', source = vercel_geo\<rparr>
   \<and> resolveAgentCountry_edge U [''x-vercel-ip-country'' \<mapsto> ''sg''] None
     = \<lparr>countryCode = ''SG'', source = vercel_geo\<rparr>
   \<and> resolveAgentCountry U \<lparr>headers = [''cf-ipcountry'' \<mapsto> ''sg''], agentCardUrl = None\<rparr>
     = \<lparr>countryCode = ''SG'', source = cf_geo\<rparr>"
  by (simp add: resolveAgentCountry_edge_def resolveAgentCountry_def Let_def two_chars_def
      truthy_def toUpperCase_def upper_char_def)

section \<open>Facts about the task map\<close>

lemma length_Map_set: "length (Map_set m k v) \<le> Suc (length m)"
  by (induction m) auto

lemma Map_set_fresh: "k \<notin> fst ` set m \<Longrightarrow> Map_set m k v = m @ [(k, v)]"
  by (induction m) auto

lemma Map_set_keys: "k \<in> fst ` set m \<Longrightarrow> map fst (Map_set m k v) = map fst m"
proof (induction m)
  case Nil
  then show ?case by simp
next
  case (Cons p ps)
  obtain a b where p: "p = (a, b)" by (cases p)
  show ?case
  proof (cases "a = k")
    case True
    with p show ?thesis by simp
  next
    case False
    with Cons.prems p have "k \<in> fst ` set ps" by auto
    with Cons.IH False p show ?thesis by simp
  qed
qed

lemma Map_set_distinct: "distinct (map fst m) \<Longrightarrow> distinct (map fst (Map_set m k v))"
proof (cases "k \<in> fst ` set m")
  case True
  then show "distinct (map fst m) \<Longrightarrow> ?thesis" by (simp add: Map_set_keys)
next
  case False
  then show "distinct (map fst m) \<Longrightarrow> ?thesis" by (simp add: Map_set_fresh)
qed

lemma Map_set_refs: "(a, r) \<in> set (Map_set m k v) \<Longrightarrow> r = v \<or> (a, r) \<in> set m"
  by (induction m) (auto split: if_splits)

lemma Map_set_nonempty: "Map_set m k v \<noteq> []"
proof (cases m)
  case Nil
  then show ?thesis by simp
next
  case (Cons p ps)
  then show ?thesis by (cases p) simp
qed

lemma Map_delete_head_length: "m \<noteq> [] \<Longrightarrow> length (Map_delete m (fst (hd m))) < length m"
proof -
  assume "m \<noteq> []"
  then obtain p ps where m: "m = p # ps" by (cases m) auto
  have "length (filter (\<lambda>(k', v). k' \<noteq> fst p) ps) \<le> length ps" by (rule length_filter_le)
  with m show ?thesis by (cases p) (simp add: Map_delete_def le_imp_less_Suc)
qed

lemma Map_delete_head: "distinct (map fst m) \<Longrightarrow> m \<noteq> [] \<Longrightarrow> Map_delete m (fst (hd m)) = tl m"
proof -
  assume d: "distinct (map fst m)" and "m \<noteq> []"
  then obtain p ps where m: "m = p # ps" by (cases m) auto
  from d m have n: "fst p \<notin> fst ` set ps" by simp
  have "fst x \<noteq> fst p" if "x \<in> set ps" for x
  proof
    assume "fst x = fst p"
    with that have "fst p \<in> fst ` set ps" by (metis imageI)
    with n show False by contradiction
  qed
  then have "filter (\<lambda>(k', v). k' \<noteq> fst p) ps = ps"
    by (simp add: filter_id_conv case_prod_beta)
  with m show ?thesis by (cases p) (simp add: Map_delete_def)
qed

lemma Map_delete_subset: "set (Map_delete m k) \<subseteq> set m"
  by (auto simp: Map_delete_def)

lemma Map_delete_distinct: "distinct (map fst m) \<Longrightarrow> distinct (map fst (Map_delete m k))"
  by (simp add: Map_delete_def distinct_map_filter)

section \<open>Bound and well-formedness of the store\<close>

lemma store_task_length: "length (tasks srv) \<le> 50 \<Longrightarrow> length (tasks (store_task srv k t)) \<le> 50"
proof -
  assume a: "length (tasks srv) \<le> 50"
  let ?m = "Map_set (tasks srv) k (length (objs srv))"
  have b: "length ?m \<le> 51" using a length_Map_set [of "tasks srv" k "length (objs srv)"] by simp
  have "length (Map_delete ?m (fst (hd ?m))) < length ?m"
    by (rule Map_delete_head_length) (rule Map_set_nonempty)
  with b show ?thesis by (simp add: store_task_def Let_def)
qed

lemma store_task_wf: "wf_server srv \<Longrightarrow> wf_server (store_task srv k t)"
proof -
  assume w: "wf_server srv"
  let ?m = "Map_set (tasks srv) k (length (objs srv))"
  from w have d: "distinct (map fst ?m)" by (simp add: wf_server_def Map_set_distinct)
  have r: "r < Suc (length (objs srv))" if "(a, r) \<in> set ?m" for a r
    using Map_set_refs [OF that] w by (auto simp: wf_server_def list_all_iff)
  have r2: "r < Suc (length (objs srv))" if "(a, r) \<in> set (Map_delete ?m x)" for a r x
    using that Map_delete_subset r by blast
  show ?thesis
    using d r r2 by (auto simp: store_task_def Let_def wf_server_def list_all_iff Map_delete_distinct)
qed

section \<open>What the handlers store\<close>

lemma handleMessageSend_success:
  assumes "handleMessageSend env srv i params = (Inr (Success j task), srv')"
  shows "srv' = store_task srv (task_id task) task \<and> state task = ''completed'' \<and> j = i"
  using assms unfolding handleMessageSend_def Let_def
  by (auto split: if_splits option.splits)

lemma handleMessageSend_other:
  "(\<exists>task. handleMessageSend env srv i params = (Inr (Success i task), store_task srv (task_id task) task))
   \<or> snd (handleMessageSend env srv i params) = srv"
  unfolding handleMessageSend_def Let_def
  by (auto split: if_splits option.splits)

lemma handleTasksGet_tasks: "tasks (snd (handleTasksGet srv i params)) = tasks srv"
  unfolding handleTasksGet_def Let_def
  by (auto split: option.splits)

lemma handleTasksGet_heap:
  "take (length (objs srv)) (objs (snd (handleTasksGet srv i params))) = objs srv"
  unfolding handleTasksGet_def Let_def
  by (auto split: option.splits)

lemma handleTasksCancel_tasks: "tasks (snd (handleTasksCancel clock srv i params)) = tasks srv"
  unfolding handleTasksCancel_def Let_def
  by (auto split: option.splits)

lemma handleTasksCancel_heap_length:
  "length (objs (snd (handleTasksCancel clock srv i params))) = length (objs srv)"
  unfolding handleTasksCancel_def Let_def
  by (auto split: option.splits)

lemma wf_server_heap:
  "wf_server srv \<Longrightarrow> tasks srv' = tasks srv \<Longrightarrow> length (objs srv) \<le> length (objs srv')
   \<Longrightarrow> wf_server srv'"
  by (auto simp: wf_server_def list_all_iff)

lemma step_length: "length (tasks srv) \<le> 50 \<Longrightarrow> length (tasks (step srv r)) \<le> 50"
proof (cases r)
  case (MessageSend env i params)
  assume a: "length (tasks srv) \<le> 50"
  from handleMessageSend_other [of env srv i params] show ?thesis
  proof
    assume "\<exists>task. handleMessageSend env srv i params
              = (Inr (Success i task), store_task srv (task_id task) task)"
    then obtain task where "handleMessageSend env srv i params
              = (Inr (Success i task), store_task srv (task_id task) task)" ..
    with a MessageSend show ?thesis by (simp add: store_task_length)
  next
    assume "snd (handleMessageSend env srv i params) = srv"
    with a MessageSend show ?thesis by simp
  qed
next
  case (TasksGet i params)
  assume "length (tasks srv) \<le> 50"
  with TasksGet show ?thesis by (simp add: handleTasksGet_tasks)
next
  case (TasksCancel clock i params)
  assume "length (tasks srv) \<le> 50"
  with TasksCancel show ?thesis by (simp add: handleTasksCancel_tasks)
qed

lemma step_wf: "wf_server srv \<Longrightarrow> wf_server (step srv r)"
proof (cases r)
  case (MessageSend env i params)
  assume a: "wf_server srv"
  from handleMessageSend_other [of env srv i params] show ?thesis
  proof
    assume "\<exists>task. handleMessageSend env srv i params
              = (Inr (Success i task), store_task srv (task_id task) task)"
    then obtain task where "handleMessageSend env srv i params
              = (Inr (Success i task), store_task srv (task_id task) task)" ..
    with a MessageSend show ?thesis by (simp add: store_task_wf)
  next
    assume "snd (handleMessageSend env srv i params) = srv"
    with a MessageSend show ?thesis by simp
  qed
next
  case (TasksGet i params)
  assume a: "wf_server srv"
  have "length (objs srv) \<le> length (objs (snd (handleTasksGet srv i params)))"
    using handleTasksGet_heap [of srv i params]
    by (metis length_take min.cobounded1 min.commute)
  with a TasksGet show ?thesis
    using wf_server_heap [OF a handleTasksGet_tasks] by simp
next
  case (TasksCancel clock i params)
  assume a: "wf_server srv"
  with TasksCancel show ?thesis
    using wf_server_heap [OF a handleTasksCancel_tasks] by (simp add: handleTasksCancel_heap_length)
qed

lemma foldl_step_invariant:
  "wf_server srv \<and> length (tasks srv) \<le> 50
   \<Longrightarrow> wf_server (foldl step srv reqs) \<and> length (tasks (foldl step srv reqs)) \<le> 50"
  by (induction reqs arbitrary: srv) (simp_all add: step_length step_wf)

lemma run_invariant: "wf_server (run reqs) \<and> length (tasks (run reqs)) \<le> 50"
  unfolding run_def
  by (rule foldl_step_invariant) (simp add: empty_server_def wf_server_def)

section \<open>tasks/cancel\<close>

lemma stored_Some_iff:
  "stored srv k = Some t
   \<longleftrightarrow> (\<exists>r. map_of (tasks srv) k = Some r \<and> r < length (objs srv) \<and> objs srv ! r = t)"
  by (auto simp: stored_def tasks_get_def split: option.splits)

lemma stored_tasks_get: "stored srv k = Some t \<Longrightarrow> \<exists>r. tasks_get srv k = Some (r, t)"
  by (auto simp: stored_def)

lemma stored_None_tasks_get: "stored srv k = None \<Longrightarrow> tasks_get srv k = None"
  by (simp add: stored_def)

lemma tasks_get_update:
  assumes "tasks_get srv k = Some (r, t)"
  shows "tasks_get (srv\<lparr>objs := (objs srv)[r := t']\<rparr>) k = Some (r, t')"
  using assms by (auto simp: tasks_get_def split: option.splits if_splits)

lemma cancel_terminal:
  assumes "params_id p = Some k" and "k \<noteq> []" and "stored srv k = Some t"
    and "state t \<in> {''completed'', ''canceled'', ''failed'', ''rejected''}"
  shows "handleTasksCancel clock srv i (Some p) =
           (Failure i ERR_TASK_NOT_CANCELABLE
              (''Task '' @ quoted k @ '' is in terminal state '' @ quoted (state t)
                 @ '' and cannot be canceled''), srv)"
proof -
  from assms(3) obtain r where "tasks_get srv k = Some (r, t)"
    using stored_tasks_get by blast
  with assms(1,2,4) show ?thesis
    by (auto simp: handleTasksCancel_def truthy_def terminalStates_def)
qed

lemma cancel_active:
  assumes "params_id p = Some k" and "k \<noteq> []" and "stored srv k = Some t"
    and "state t \<notin> {''completed'', ''canceled'', ''failed'', ''rejected''}"
  shows "\<exists>r. tasks_get srv k = Some (r, t)
           \<and> handleTasksCancel clock srv i (Some p) =
               (Success i (t\<lparr>state := ''canceled'', timestamp := clock\<rparr>),
                srv\<lparr>objs := (objs srv)[r := t\<lparr>state := ''canceled'', timestamp := clock\<rparr>]\<rparr>)"
proof -
  from assms(3) obtain r where r: "tasks_get srv k = Some (r, t)"
    using stored_tasks_get by blast
  then have "r < length (objs srv)"
    by (auto simp: tasks_get_def split: option.splits if_splits)
  with r assms(1,2,4) show ?thesis
    by (auto simp: handleTasksCancel_def truthy_def terminalStates_def Let_def)
qed

lemma cancel_missing:
  assumes "params_id p = Some k" and "k \<noteq> []" and "stored srv k = None"
  shows "handleTasksCancel clock srv i (Some p) =
           (Failure i ERR_TASK_NOT_FOUND (''Task '' @ quoted k @ '' not found''), srv)"
  using assms stored_None_tasks_get [OF assms(3)]
  by (simp add: handleTasksCancel_def truthy_def)

text \<open>
  C6. A \<open>tasks/cancel\<close> request that carries a (non-empty) id: when the stored task of that
  id is in one of the states completed, canceled, failed, rejected, the answer is the
  "not cancelable" error and the store is unchanged; when it is in any other state, the
  answer is the task with state canceled and the request's clock reading as timestamp, the
  store holds that task under the id, and a second cancel of the same id gets the
  "not cancelable" error; when no task is stored under the id, the answer is the
  task-not-found error. The three error codes involved differ from one another.
\<close>

theorem handleTasksCancel_lifecycle:
  "(params_id p = Some k \<and> k \<noteq> [] \<and> stored srv k = Some t
      \<and> state t \<in> {''completed'', ''canceled'', ''failed'', ''rejected''} \<longrightarrow>
      handleTasksCancel clock srv i (Some p) =
        (Failure i ERR_TASK_NOT_CANCELABLE
           (''Task '' @ quoted k @ '' is in terminal state '' @ quoted (state t)
              @ '' and cannot be canceled''), srv))
   \<and> (params_id p = Some k \<and> k \<noteq> [] \<and> stored srv k = Some t
      \<and> state t \<notin> {''completed'', ''canceled'', ''failed'', ''rejected''} \<longrightarrow>
      fst (handleTasksCancel clock srv i (Some p))
        = Success i (t\<lparr>state := ''canceled'', timestamp := clock\<rparr>)
      \<and> stored (snd (handleTasksCancel clock srv i (Some p))) k
        = Some (t\<lparr>state := ''canceled'', timestamp := clock\<rparr>)
      \<and> tasks (snd (handleTasksCancel clock srv i (Some p))) = tasks srv
      \<and> handleTasksCancel clock2 (snd (handleTasksCancel clock srv i (Some p))) i2 (Some p) =
        (Failure i2 ERR_TASK_NOT_CANCELABLE
           (''Task '' @ quoted k @ '' is in terminal state '' @ quoted ''canceled''
              @ '' and cannot be canceled''),
         snd (handleTasksCancel clock srv i (Some p))))
   \<and> (params_id p = Some k \<and> k \<noteq> [] \<and> stored srv k = None \<longrightarrow>
      handleTasksCancel clock srv i (Some p) =
        (Failure i ERR_TASK_NOT_FOUND (''Task '' @ quoted k @ '' not found''), srv))
   \<and> ERR_TASK_NOT_CANCELABLE \<noteq> ERR_TASK_NOT_FOUND
   \<and> ERR_TASK_NOT_CANCELABLE \<noteq> ERR_INVALID_PARAMS
   \<and> ERR_TASK_NOT_FOUND \<noteq> ERR_INVALID_PARAMS"
proof -
  have a: "params_id p = Some k \<and> k \<noteq> [] \<and> stored srv k = Some t
      \<and> state t \<in> {''completed'', ''canceled'', ''failed'', ''rejected''} \<longrightarrow>
      handleTasksCancel clock srv i (Some p) =
        (Failure i ERR_TASK_NOT_CANCELABLE
           (''Task '' @ quoted k @ '' is in terminal state '' @ quoted (state t)
              @ '' and cannot be canceled''), srv)"
    using cancel_terminal by blast
  have b: "fst (handleTasksCancel clock srv i (Some p))
        = Success i (t\<lparr>state := ''canceled'', timestamp := clock\<rparr>)
      \<and> stored (snd (handleTasksCancel clock srv i (Some p))) k
        = Some (t\<lparr>state := ''canceled'', timestamp := clock\<rparr>)
      \<and> tasks (snd (handleTasksCancel clock srv i (Some p))) = tasks srv
      \<and> handleTasksCancel clock2 (snd (handleTasksCancel clock srv i (Some p))) i2 (Some p) =
        (Failure i2 ERR_TASK_NOT_CANCELABLE
           (''Task '' @ quoted k @ '' is in terminal state '' @ quoted ''canceled''
              @ '' and cannot be canceled''),
         snd (handleTasksCancel clock srv i (Some p)))"
    if h: "params_id p = Some k" "k \<noteq> []" "stored srv k = Some t"
      "state t \<notin> {''completed'', ''canceled'', ''failed'', ''rejected''}"
  proof -
    let ?t = "t\<lparr>state := ''canceled'', timestamp := clock\<rparr>"
    from cancel_active [OF h, of clock i] obtain r where
      r: "tasks_get srv k = Some (r, t)" and
      c: "handleTasksCancel clock srv i (Some p)
            = (Success i ?t, srv\<lparr>objs := (objs srv)[r := ?t]\<rparr>)"
      by blast
    let ?srv = "srv\<lparr>objs := (objs srv)[r := ?t]\<rparr>"
    have g: "tasks_get ?srv k = Some (r, ?t)" using r by (rule tasks_get_update)
    then have s: "stored ?srv k = Some ?t" by (simp add: stored_def)
    have "state ?t \<in> {''completed'', ''canceled'', ''failed'', ''rejected''}" by simp
    with h(1,2) s have "handleTasksCancel clock2 ?srv i2 (Some p) =
        (Failure i2 ERR_TASK_NOT_CANCELABLE
           (''Task '' @ quoted k @ '' is in terminal state '' @ quoted (state ?t)
              @ '' and cannot be canceled''), ?srv)"
      by (rule cancel_terminal)
    with c s show ?thesis by simp
  qed
  have c: "params_id p = Some k \<and> k \<noteq> [] \<and> stored srv k = None \<longrightarrow>
      handleTasksCancel clock srv i (Some p) =
        (Failure i ERR_TASK_NOT_FOUND (''Task '' @ quoted k @ '' not found''), srv)"
    using cancel_missing by blast
  have d: "ERR_TASK_NOT_CANCELABLE \<noteq> ERR_TASK_NOT_FOUND
   \<and> ERR_TASK_NOT_CANCELABLE \<noteq> ERR_INVALID_PARAMS
   \<and> ERR_TASK_NOT_FOUND \<noteq> ERR_INVALID_PARAMS"
    by (simp add: ERR_TASK_NOT_CANCELABLE_def ERR_TASK_NOT_FOUND_def ERR_INVALID_PARAMS_def)
  from a b c d show ?thesis by blast
qed

theorem handleTasksCancel_lifecycle_witness:
  "stored example_server ''t-1'' = Some (example_task ''t-1'' ''completed'')
   \<and> handleTasksCancel ''2026-02-27T00:00:05.000Z'' example_server ''rpc-7''
         (Some \<lparr>params_id = Some ''t-1'', params_historyLength = None\<rparr>)
       = (Failure ''rpc-7'' ERR_TASK_NOT_CANCELABLE
            (''Task '' @ quoted ''t-1'' @ '' is in terminal state '' @ quoted ''completed''
               @ '' and cannot be canceled''), example_server)
   \<and> stored example_server ''t-2'' = Some (example_task ''t-2'' ''working'')
   \<and> fst (handleTasksCancel ''2026-02-27T00:00:05.000Z'' example_server ''rpc-8''
         (Some \<lparr>params_id = Some ''t-2'', params_historyLength = None\<rparr>))
       = Success ''rpc-8'' ((example_task ''t-2'' ''canceled'')
                              \<lparr>timestamp := ''2026-02-27T00:00:05.000Z''\<rparr>)
   \<and> fst (handleTasksCancel ''2026-02-27T00:00:06.000Z''
         (snd (handleTasksCancel ''2026-02-27T00:00:05.000Z'' example_server ''rpc-8''
            (Some \<lparr>params_id = Some ''t-2'', params_historyLength = None\<rparr>)))
         ''rpc-9'' (Some \<lparr>params_id = Some ''t-2'', params_historyLength = None\<rparr>))
       = Failure ''rpc-9'' ERR_TASK_NOT_CANCELABLE
            (''Task '' @ quoted ''t-2'' @ '' is in terminal state '' @ quoted ''canceled''
               @ '' and cannot be canceled'')
   \<and> stored example_server ''t-9'' = None
   \<and> handleTasksCancel ''2026-02-27T00:00:05.000Z'' example_server ''rpc-10''
         (Some \<lparr>params_id = Some ''t-9'', params_historyLength = None\<rparr>)
       = (Failure ''rpc-10'' ERR_TASK_NOT_FOUND (''Task '' @ quoted ''t-9'' @ '' not found''),
          example_server)"
proof -
  have h1: "stored example_server ''t-1'' = Some (example_task ''t-1'' ''completed'')"
    by (simp add: stored_def tasks_get_def example_server_def)
  have h2: "stored example_server ''t-2'' = Some (example_task ''t-2'' ''working'')"
    by (simp add: stored_def tasks_get_def example_server_def)
  have h3: "stored example_server ''t-9'' = None"
    by (simp add: stored_def tasks_get_def example_server_def)
  have s1: "state (example_task ''t-1'' ''completed'')
              \<in> {''completed'', ''canceled'', ''failed'', ''rejected''}"
    by (simp add: example_task_def)
  have s2: "state (example_task ''t-2'' ''working'')
              \<notin> {''completed'', ''canceled'', ''failed'', ''rejected''}"
    by (simp add: example_task_def)
  have e1: "state (example_task ''t-1'' ''completed'') = ''completed''"
    by (simp add: example_task_def)
  have e2: "(example_task ''t-2'' ''working'')\<lparr>state := ''canceled'', timestamp := c\<rparr>
              = (example_task ''t-2'' ''canceled'')\<lparr>timestamp := c\<rparr>" for c
    by (simp add: example_task_def)
  have c1: "handleTasksCancel ''2026-02-27T00:00:05.000Z'' example_server ''rpc-7''
         (Some \<lparr>params_id = Some ''t-1'', params_historyLength = None\<rparr>)
       = (Failure ''rpc-7'' ERR_TASK_NOT_CANCELABLE
            (''Task '' @ quoted ''t-1'' @ '' is in terminal state '' @ quoted ''completed''
               @ '' and cannot be canceled''), example_server)"
    using h1 s1 e1
      handleTasksCancel_lifecycle [where p = "\<lparr>params_id = Some ''t-1'', params_historyLength = None\<rparr>"
        and k = "''t-1''" and srv = example_server and t = "example_task ''t-1'' ''completed''"
        and clock = "''2026-02-27T00:00:05.000Z''" and i = "''rpc-7''"]
    by simp
  have c2: "fst (handleTasksCancel ''2026-02-27T00:00:05.000Z'' example_server ''rpc-8''
         (Some \<lparr>params_id = Some ''t-2'', params_historyLength = None\<rparr>))
       = Success ''rpc-8'' ((example_task ''t-2'' ''canceled'')
                              \<lparr>timestamp := ''2026-02-27T00:00:05.000Z''\<rparr>)
     \<and> fst (handleTasksCancel ''2026-02-27T00:00:06.000Z''
         (snd (handleTasksCancel ''2026-02-27T00:00:05.000Z'' example_server ''rpc-8''
            (Some \<lparr>params_id = Some ''t-2'', params_historyLength = None\<rparr>)))
         ''rpc-9'' (Some \<lparr>params_id = Some ''t-2'', params_historyLength = None\<rparr>))
       = Failure ''rpc-9'' ERR_TASK_NOT_CANCELABLE
            (''Task '' @ quoted ''t-2'' @ '' is in terminal state '' @ quoted ''canceled''
               @ '' and cannot be canceled'')"
    using h2 s2 e2
      handleTasksCancel_lifecycle [where p = "\<lparr>params_id = Some ''t-2'', params_historyLength = None\<rparr>"
        and k = "''t-2''" and srv = example_server and t = "example_task ''t-2'' ''working''"
        and clock = "''2026-02-27T00:00:05.000Z''" and i = "''rpc-8''"
        and ?clock2.0 = "''2026-02-27T00:00:06.000Z''" and ?i2.0 = "''rpc-9''"]
    by simp
  have c3: "handleTasksCancel ''2026-02-27T00:00:05.000Z'' example_server ''rpc-10''
         (Some \<lparr>params_id = Some ''t-9'', params_historyLength = None\<rparr>)
       = (Failure ''rpc-10'' ERR_TASK_NOT_FOUND (''Task '' @ quoted ''t-9'' @ '' not found''),
          example_server)"
    using h3
      handleTasksCancel_lifecycle [where p = "\<lparr>params_id = Some ''t-9'', params_historyLength = None\<rparr>"
        and k = "''t-9''" and srv = example_server
        and clock = "''2026-02-27T00:00:05.000Z''" and i = "''rpc-10''"]
    by simp
  from h1 h2 h3 c1 c2 c3 show ?thesis by blast
qed

section \<open>tasks/get\<close>

lemma get_found:
  assumes "params_id p = Some k" and "k \<noteq> []" and "tasks_get srv k = Some (r, t)"
  shows "handleTasksGet srv i (Some p) =
           (Success i (if params_historyLength p = Some 0 then t\<lparr>history := None\<rparr> else t),
            srv\<lparr>objs := (if params_historyLength p = Some 0
                          then objs srv @ [t\<lparr>history := None\<rparr>]
                          else objs srv @ [t])\<rparr>)"
  using assms by (simp add: handleTasksGet_def truthy_def Let_def)

lemma tasks_get_extend:
  assumes "tasks_get srv k = Some (r, t)"
  shows "tasks_get (srv\<lparr>objs := objs srv @ xs\<rparr>) k = Some (r, t)"
  using assms by (auto simp: tasks_get_def nth_append split: option.splits if_splits)

lemma stored_frame:
  assumes "wf_server srv" and "tasks srv' = tasks srv"
    and "take (length (objs srv)) (objs srv') = objs srv"
  shows "stored srv' k = stored srv k"
proof (cases "map_of (tasks srv) k")
  case None
  with assms(2) show ?thesis by (simp add: stored_def tasks_get_def)
next
  case (Some r)
  then have "(k, r) \<in> set (tasks srv)" by (rule map_of_SomeD)
  with assms(1) have r: "r < length (objs srv)"
    by (auto simp: wf_server_def list_all_iff)
  have le: "length (objs srv) \<le> length (objs srv')"
    using assms(3) by (metis length_take min.cobounded1 min.commute)
  have "objs srv ! r = take (length (objs srv)) (objs srv') ! r" by (simp only: assms(3))
  also have "\<dots> = objs srv' ! r" using r by simp
  finally have "objs srv' ! r = objs srv ! r" by (rule sym)
  with Some r le assms(2) show ?thesis by (simp add: stored_def tasks_get_def)
qed

text \<open>
  C10. A \<open>tasks/get\<close> request never changes the task map or an object that was on the heap
  before it (the heap as it was is a prefix of the heap afterwards), so in a well-formed
  store every id is bound to the task it was bound to. For a stored task, the answer is
  the task; with \<open>historyLength\<close> equal to 0 the answer lacks the history while the stored
  task keeps it, and a later \<open>tasks/get\<close> without suppression answers the full task.
\<close>

theorem handleTasksGet_frame:
  "tasks (snd (handleTasksGet srv i params)) = tasks srv
   \<and> take (length (objs srv)) (objs (snd (handleTasksGet srv i params))) = objs srv
   \<and> (wf_server srv \<longrightarrow> stored (snd (handleTasksGet srv i params)) k' = stored srv k')
   \<and> (params_id p = Some k \<and> k \<noteq> [] \<and> stored srv k = Some t \<longrightarrow>
        fst (handleTasksGet srv i (Some p))
          = Success i (if params_historyLength p = Some 0 then t\<lparr>history := None\<rparr> else t)
        \<and> stored (snd (handleTasksGet srv i (Some p))) k = Some t
        \<and> (params_id q = Some k \<and> params_historyLength q \<noteq> Some 0 \<longrightarrow>
             fst (handleTasksGet (snd (handleTasksGet srv i (Some p))) j (Some q)) = Success j t))"
proof -
  note a = handleTasksGet_tasks [of srv i params]
  note b = handleTasksGet_heap [of srv i params]
  have c: "wf_server srv \<longrightarrow> stored (snd (handleTasksGet srv i params)) k' = stored srv k'"
    using stored_frame [OF _ a b] by blast
  have d: "fst (handleTasksGet srv i (Some p))
          = Success i (if params_historyLength p = Some 0 then t\<lparr>history := None\<rparr> else t)
        \<and> stored (snd (handleTasksGet srv i (Some p))) k = Some t
        \<and> (params_id q = Some k \<and> params_historyLength q \<noteq> Some 0 \<longrightarrow>
             fst (handleTasksGet (snd (handleTasksGet srv i (Some p))) j (Some q)) = Success j t)"
    if h: "params_id p = Some k" "k \<noteq> []" "stored srv k = Some t"
  proof -
    from h(3) obtain r where r: "tasks_get srv k = Some (r, t)"
      using stored_tasks_get by blast
    note g = get_found [OF h(1,2) r, of i]
    let ?srv = "snd (handleTasksGet srv i (Some p))"
    have e: "tasks_get ?srv k = Some (r, t)"
      using tasks_get_extend [OF r] by (simp add: g)
    then have s: "stored ?srv k = Some t" by (simp add: stored_def)
    have "fst (handleTasksGet ?srv j (Some q)) = Success j t"
      if "params_id q = Some k" and "params_historyLength q \<noteq> Some 0"
      using get_found [OF that(1) h(2) e, of j] that(2) by simp
    with g s show ?thesis by simp
  qed
  from a b c d show ?thesis by blast
qed

theorem handleTasksGet_frame_witness:
  "wf_server example_server
   \<and> stored example_server ''t-1'' = Some (example_task ''t-1'' ''completed'')
   \<and> fst (handleTasksGet example_server ''rpc-1''
        (Some \<lparr>params_id = Some ''t-1'', params_historyLength = Some 0\<rparr>))
      = Success ''rpc-1'' ((example_task ''t-1'' ''completed'')\<lparr>history := None\<rparr>)
   \<and> stored (snd (handleTasksGet example_server ''rpc-1''
        (Some \<lparr>params_id = Some ''t-1'', params_historyLength = Some 0\<rparr>))) ''t-1''
      = Some (example_task ''t-1'' ''completed'')
   \<and> stored (snd (handleTasksGet example_server ''rpc-1''
        (Some \<lparr>params_id = Some ''t-1'', params_historyLength = Some 0\<rparr>))) ''t-2''
      = stored example_server ''t-2''
   \<and> fst (handleTasksGet (snd (handleTasksGet example_server ''rpc-1''
              (Some \<lparr>params_id = Some ''t-1'', params_historyLength = Some 0\<rparr>)))
            ''rpc-2'' (Some \<lparr>params_id = Some ''t-1'', params_historyLength = None\<rparr>))
      = Success ''rpc-2'' (example_task ''t-1'' ''completed'')
   \<and> history (example_task ''t-1'' ''completed'') = Some [agent_message ''m-2'' ''done'']"
proof -
  have w: "wf_server example_server"
    by (simp add: wf_server_def example_server_def)
  have h: "stored example_server ''t-1'' = Some (example_task ''t-1'' ''completed'')"
    by (simp add: stored_def tasks_get_def example_server_def)
  have e: "history (example_task ''t-1'' ''completed'') = Some [agent_message ''m-2'' ''done'']"
    by (simp add: example_task_def)
  note T = handleTasksGet_frame [where srv = example_server and i = "''rpc-1''"
      and params = "Some \<lparr>params_id = Some ''t-1'', params_historyLength = Some 0\<rparr>"
      and k' = "''t-2''"
      and p = "\<lparr>params_id = Some ''t-1'', params_historyLength = Some 0\<rparr>"
      and k = "''t-1''" and t = "example_task ''t-1'' ''completed''"
      and q = "\<lparr>params_id = Some ''t-1'', params_historyLength = None\<rparr>"
      and j = "''rpc-2''"]
  from T w h e show ?thesis by simp
qed

section \<open>Eviction\<close>

lemma store_task_evicts:
  assumes w: "wf_server srv" and n: "length (tasks srv) = 50"
    and f: "tid \<notin> fst ` set (tasks srv)"
  shows "tasks (store_task srv tid task) = tl (tasks srv) @ [(tid, length (objs srv))]
         \<and> objs (store_task srv tid task) = objs srv @ [task]"
proof -
  let ?m = "tasks srv @ [(tid, length (objs srv))]"
  from n have ne: "tasks srv \<noteq> []" by auto
  from f have s: "Map_set (tasks srv) tid (length (objs srv)) = ?m" by (rule Map_set_fresh)
  from w f have d: "distinct (map fst ?m)" by (simp add: wf_server_def)
  have "Map_delete ?m (fst (hd ?m)) = tl ?m"
    by (rule Map_delete_head [OF d]) simp
  also have "\<dots> = tl (tasks srv) @ [(tid, length (objs srv))]" using ne by simp
  finally show ?thesis using n by (simp add: store_task_def Let_def s)
qed

lemma store_task_stored:
  assumes w: "wf_server srv" and n: "length (tasks srv) = 50"
    and f: "tid \<notin> fst ` set (tasks srv)"
  shows "stored (store_task srv tid task) tid = Some task
         \<and> stored (store_task srv tid task) (fst (hd (tasks srv))) = None
         \<and> (\<forall>k \<in> fst ` set (tl (tasks srv)). stored (store_task srv tid task) k = stored srv k)"
proof -
  let ?srv = "store_task srv tid task"
  note e = store_task_evicts [OF w n f, of task]
  from n obtain p ps where m: "tasks srv = p # ps" by (cases "tasks srv") auto
  from w m have dp: "fst p \<notin> fst ` set ps" and dps: "distinct (map fst ps)"
    by (simp_all add: wf_server_def)
  from f m have ft: "tid \<notin> fst ` set ps" and pt: "fst p \<noteq> tid" by auto
  have t: "tasks ?srv = ps @ [(tid, length (objs srv))]" using e m by simp
  have o: "objs ?srv = objs srv @ [task]" using e by simp
  from ft have np: "map_of ps tid = None" by (simp add: map_of_eq_None_iff)
  have "map_of (tasks ?srv) tid = Some (length (objs srv))"
    using np by (simp add: t map_add_def)
  then have a: "stored ?srv tid = Some task"
    by (simp add: stored_def tasks_get_def o)
  from dp have "map_of ps (fst p) = None" by (simp add: map_of_eq_None_iff)
  then have "map_of (tasks ?srv) (fst p) = None"
    using pt by (simp add: t map_add_def)
  then have b: "stored ?srv (fst (hd (tasks srv))) = None"
    by (simp add: stored_def tasks_get_def m)
  have c: "stored ?srv k = stored srv k" if "k \<in> fst ` set ps" for k
  proof -
    from that obtain r where r: "map_of ps k = Some r"
      by (metis map_of_eq_None_iff not_Some_eq)
    then have "(k, r) \<in> set (tasks srv)" using m by (auto dest: map_of_SomeD)
    with w have lt: "r < length (objs srv)" by (auto simp: wf_server_def list_all_iff)
    from that dp have "k \<noteq> fst p" by blast
    then have old: "map_of (tasks srv) k = Some r" using r m by (cases p) simp
    have new: "map_of (tasks ?srv) k = Some r" using r by (simp add: t map_add_def)
    show ?thesis using old new lt by (simp add: stored_def tasks_get_def o nth_append)
  qed
  from a b c m show ?thesis by simp
qed

lemma sent_task_result:
  assumes "sent_task res = Some t"
  shows "\<exists>j. res = (Inr (Success j t), snd res)"
proof (cases "fst res")
  case (Inl e)
  with assms show ?thesis by (simp add: sent_task_def)
next
  case (Inr resp)
  with assms obtain j where "resp = Success j t"
    by (cases resp) (simp_all add: sent_task_def)
  with Inr show ?thesis by (metis prod.collapse)
qed

text \<open>
  C7. After any sequence of requests the task map holds at most 50 tasks (and is
  well-formed). When a \<open>message/send\<close> stores a task under an id that is not in a
  well-formed map of 50 tasks, the map afterwards is the old one without its first entry
  and with the new entry appended: the earliest-inserted task is gone, the new task is
  stored, and every other id is bound to the task it was bound to. Insertion order is not
  changed by access: \<open>tasks/get\<close> and \<open>tasks/cancel\<close> leave the map as it is, and storing
  under an id already present keeps the order of the keys.
\<close>

theorem task_store_bounded_eviction:
  "length (tasks (run reqs)) \<le> 50 \<and> wf_server (run reqs)
   \<and> (wf_server srv \<and> length (tasks srv) = 50
        \<and> handleMessageSend env srv i params = (Inr (Success i task), srv')
        \<and> task_id task \<notin> fst ` set (tasks srv) \<longrightarrow>
        tasks srv' = tl (tasks srv) @ [(task_id task, length (objs srv))]
        \<and> stored srv' (task_id task) = Some task
        \<and> stored srv' (fst (hd (tasks srv))) = None
        \<and> (\<forall>k \<in> fst ` set (tl (tasks srv)). stored srv' k = stored srv k))
   \<and> tasks (snd (handleTasksGet srv i gp)) = tasks srv
   \<and> tasks (snd (handleTasksCancel clock srv i gp)) = tasks srv
   \<and> (k \<in> fst ` set m \<longrightarrow> map fst (Map_set m k v) = map fst m)"
proof -
  have ev: "tasks srv' = tl (tasks srv) @ [(task_id task, length (objs srv))]
        \<and> stored srv' (task_id task) = Some task
        \<and> stored srv' (fst (hd (tasks srv))) = None
        \<and> (\<forall>k \<in> fst ` set (tl (tasks srv)). stored srv' k = stored srv k)"
    if w: "wf_server srv" and n: "length (tasks srv) = 50"
      and s: "handleMessageSend env srv i params = (Inr (Success i task), srv')"
      and f: "task_id task \<notin> fst ` set (tasks srv)"
  proof -
    from handleMessageSend_success [OF s] have "srv' = store_task srv (task_id task) task"
      by simp
    with store_task_evicts [OF w n f, of task] store_task_stored [OF w n f, of task]
    show ?thesis by simp
  qed
  from ev run_invariant [of reqs] handleTasksGet_tasks [of srv i gp]
    handleTasksCancel_tasks [of clock srv i gp] Map_set_keys [of k m v]
  show ?thesis by blast
qed

theorem task_store_bounded_eviction_witness:
  "wf_server full_server \<and> length (tasks full_server) = 50
   \<and> map_option task_id (sent_task (handleMessageSend example_env full_server ''rpc-1''
         (Some (example_send ''check 8.8.8.8'' None)))) = Some ''task-new''
   \<and> ''task-new'' \<notin> fst ` set (tasks full_server)
   \<and> fst (hd (tasks full_server)) = ''task-0''
   \<and> tasks (snd (handleMessageSend example_env full_server ''rpc-1''
         (Some (example_send ''check 8.8.8.8'' None))))
      = tl (tasks full_server) @ [(''task-new'', length (objs full_server))]
   \<and> stored (snd (handleMessageSend example_env full_server ''rpc-1''
         (Some (example_send ''check 8.8.8.8'' None)))) ''task-0'' = None
   \<and> ''task-1'' \<in> fst ` set (tl (tasks full_server))
   \<and> stored (snd (handleMessageSend example_env full_server ''rpc-1''
         (Some (example_send ''check 8.8.8.8'' None)))) ''task-1''
      = Some (example_task ''task-1'' ''completed'')"
proof -
  let ?res = "handleMessageSend example_env full_server ''rpc-1''
                (Some (example_send ''check 8.8.8.8'' None))"
  have e1: "wf_server full_server" by code_simp
  have e2: "length (tasks full_server) = 50" by code_simp
  have e3: "map_option task_id (sent_task ?res) = Some ''task-new''" by code_simp
  have e4: "''task-new'' \<notin> fst ` set (tasks full_server)" by code_simp
  have e5: "fst (hd (tasks full_server)) = ''task-0''" by code_simp
  from e3 obtain task where st: "sent_task ?res = Some task" and tid: "task_id task = ''task-new''"
    by (cases "sent_task ?res") auto
  from sent_task_result [OF st] obtain j where r: "?res = (Inr (Success j task), snd ?res)" ..
  from handleMessageSend_success [OF r] have "j = ''rpc-1''" by simp
  with r have r': "?res = (Inr (Success ''rpc-1'' task), snd ?res)" by simp
  note T = task_store_bounded_eviction [where srv = full_server and env = example_env
      and i = "''rpc-1''" and params = "Some (example_send ''check 8.8.8.8'' None)"
      and task = task and srv' = "snd ?res"]
  from T e1 e2 r' tid e4 have c:
    "tasks (snd ?res) = tl (tasks full_server) @ [(''task-new'', length (objs full_server))]
     \<and> stored (snd ?res) (fst (hd (tasks full_server))) = None
     \<and> (\<forall>k \<in> fst ` set (tl (tasks full_server)). stored (snd ?res) k = stored full_server k)"
    by simp
  have e6: "''task-1'' \<in> fst ` set (tl (tasks full_server))" by code_simp
  have e7: "stored full_server ''task-1'' = Some (example_task ''task-1'' ''completed'')"
    by code_simp
  from c e6 have "stored (snd ?res) ''task-1'' = stored full_server ''task-1''"
    by blast
  with e7 have d: "stored (snd ?res) ''task-1'' = Some (example_task ''task-1'' ''completed'')"
    by simp
  from e1 e2 e3 e4 e5 e6 c d show ?thesis by simp
qed

section \<open>Skill routing\<close>

lemma rx_match_imp_search: "rx_match as prev s \<Longrightarrow> rx_search as prev s"
  by (cases s) simp_all

lemma rx_search_append:
  "rx_match as (if pre = [] then prev else Some (last pre)) s \<Longrightarrow> rx_search as prev (pre @ s)"
proof (induction pre arbitrary: prev)
  case Nil
  then show ?case by (simp add: rx_match_imp_search)
next
  case (Cons c cs)
  have "rx_match as (if cs = [] then Some c else Some (last cs)) s"
    using Cons.prems by (simp split: if_splits)
  then have "rx_search as (Some c) (cs @ s)" by (rule Cons.IH)
  then show ?case by simp
qed

lemma rx_match_rep:
  "list_all p d \<Longrightarrow> lo \<le> length d \<Longrightarrow> length d \<le> hi
   \<Longrightarrow> rx_match as (if d = [] then prev else Some (last d)) rest
   \<Longrightarrow> rx_match (Rep p lo (Some hi) # as) prev (d @ rest)"
proof (induction d arbitrary: lo hi prev)
  case Nil
  then have "lo = 0" and m: "rx_match as prev rest" by simp_all
  then show ?case by (cases rest) simp_all
next
  case (Cons c cs)
  from Cons.prems(1) have pc: "p c" and pcs: "list_all p cs" by simp_all
  from Cons.prems(3) obtain h where hi: "hi = Suc h" and h: "length cs \<le> h"
    by (cases hi) simp_all
  have m: "rx_match as (if cs = [] then Some c else Some (last cs)) rest"
    using Cons.prems(4) by (simp split: if_splits)
  show ?case
  proof (cases lo)
    case 0
    have "rx_match (Rep p 0 (Some h) # as) (Some c) (cs @ rest)"
      by (rule Cons.IH [OF pcs _ h m]) simp
    with 0 hi pc show ?thesis by (simp add: less_one_def)
  next
    case (Suc l)
    with Cons.prems(2) have "l \<le> length cs" by simp
    then have "rx_match (Rep p l (Some h) # as) (Some c) (cs @ rest)"
      by (rule Cons.IH [OF pcs _ h m])
    with Suc hi pc show ?thesis by (simp add: less_one_def)
  qed
qed

lemma is_digit_word: "is_digit c \<Longrightarrow> is_word c"
  by (auto simp: is_digit_def is_word_def)

lemma digit_group_rep:
  assumes "digit_group d" and "rx_match as (Some (last d)) rest"
  shows "rx_match (Rep is_digit 1 (Some 3) # as) prev (d @ rest)"
proof (rule rx_match_rep)
  from assms(1) show "list_all is_digit d" and "1 \<le> length d" and "length d \<le> 3"
    by (cases d; simp add: digit_group_def)+
  from assms show "rx_match as (if d = [] then prev else Some (last d)) rest"
    by (simp add: digit_group_def)
qed

lemma dot_rep:
  assumes "rx_match as (Some (CHR ''.'')) rest"
  shows "rx_match (Rep (\<lambda>x. x = CHR ''.'') 1 (Some 1) # as) prev (''.'' @ rest)"
  using assms by (simp add: less_one_def) (cases rest; simp)


lemma digit_group_ends: "digit_group d \<Longrightarrow> is_word (hd d) \<and> is_word (last d)"
proof -
  assume g: "digit_group d"
  then have "d \<noteq> []" and "list_all is_digit d" by (simp_all add: digit_group_def)
  then have "is_digit (hd d)" and "is_digit (last d)" by (simp_all add: list_all_iff)
  then show ?thesis by (simp add: is_digit_word)
qed

lemma ipv4_token_matches:
  assumes g1: "digit_group d1" and g2: "digit_group d2" and g3: "digit_group d3"
    and g4: "digit_group d4"
    and pre: "pre = [] \<or> \<not> is_word (last pre)" and post: "post = [] \<or> \<not> is_word (hd post)"
  shows "rx_test RX_IPV4 (pre @ d1 @ ''.'' @ d2 @ ''.'' @ d3 @ ''.'' @ d4 @ post)"
proof -
  let ?D = "Rep is_digit 1 (Some 3)"
  let ?P = "Rep (\<lambda>x. x = CHR ''.'') 1 (Some 1)"
  let ?prev = "if pre = [] then None else Some (last pre)"
  have np: "\<not> word_at (next_char post)"
    using post by (cases post) (simp_all add: word_at_def next_char_def)
  have "word_at (Some (last d4))" using digit_group_ends [OF g4] by (simp add: word_at_def)
  with np have m9: "rx_match [WordB] (Some (last d4)) post" by simp
  have m8: "rx_match [?D, WordB] (Some (CHR ''.'')) (d4 @ post)"
    using g4 m9 by (rule digit_group_rep)
  have m7: "rx_match [?P, ?D, WordB] (Some (last d3)) (''.'' @ d4 @ post)"
    using m8 by (rule dot_rep)
  have m6: "rx_match [?D, ?P, ?D, WordB] (Some (CHR ''.'')) (d3 @ ''.'' @ d4 @ post)"
    using g3 m7 by (rule digit_group_rep)
  have m5: "rx_match [?P, ?D, ?P, ?D, WordB] (Some (last d2)) (''.'' @ d3 @ ''.'' @ d4 @ post)"
    using m6 by (rule dot_rep)
  have m4: "rx_match [?D, ?P, ?D, ?P, ?D, WordB] (Some (CHR ''.''))
              (d2 @ ''.'' @ d3 @ ''.'' @ d4 @ post)"
    using g2 m5 by (rule digit_group_rep)
  have m3: "rx_match [?P, ?D, ?P, ?D, ?P, ?D, WordB] (Some (last d1))
              (''.'' @ d2 @ ''.'' @ d3 @ ''.'' @ d4 @ post)"
    using m4 by (rule dot_rep)
  have m2: "rx_match [?D, ?P, ?D, ?P, ?D, ?P, ?D, WordB] ?prev
              (d1 @ ''.'' @ d2 @ ''.'' @ d3 @ ''.'' @ d4 @ post)"
    using g1 m3 by (rule digit_group_rep)
  have wp: "\<not> word_at ?prev" using pre by (auto simp: word_at_def)
  from g1 have "d1 \<noteq> []" by (simp add: digit_group_def)
  then have "next_char (d1 @ ''.'' @ d2 @ ''.'' @ d3 @ ''.'' @ d4 @ post) = Some (hd d1)"
    by (cases d1) (simp_all add: next_char_def)
  then have "word_at (next_char (d1 @ ''.'' @ d2 @ ''.'' @ d3 @ ''.'' @ d4 @ post))"
    using digit_group_ends [OF g1] by (simp add: word_at_def)
  with wp m2 have m1: "rx_match [WordB, ?D, ?P, ?D, ?P, ?D, ?P, ?D, WordB] ?prev
              (d1 @ ''.'' @ d2 @ ''.'' @ d3 @ ''.'' @ d4 @ post)"
    by simp
  then have "rx_search [WordB, ?D, ?P, ?D, ?P, ?D, ?P, ?D, WordB] None
              (pre @ d1 @ ''.'' @ d2 @ ''.'' @ d3 @ ''.'' @ d4 @ post)"
    by (rule rx_search_append)
  then show ?thesis by (simp add: rx_test_def RX_IPV4_def)
qed

lemma routeToAgent_unrecognized:
  assumes "\<not> (truthy sid \<and> SKILL_MAP_get (the sid) \<noteq> None)"
  shows "routeToAgent txt sid = own_route (first_category txt)"
proof -
  from assms have "routeToAgent txt sid =
      (let lower = toLowerCase txt
       in if rx_test RX_IPV4 txt \<or> rx_test RX_HASH txt \<or> rx_test RX_IOC lower
          then own_route ''ioc-lookup''
          else if rx_test RX_TRIAGE lower then own_route ''triage-analysis''
          else if rx_test RX_CONTAIN lower then own_route ''containment-response''
          else if rx_test RX_REPORT lower then own_route ''reporting-visualization''
          else if rx_test RX_LEARN lower then own_route ''continuous-learning''
          else own_route ''anomaly-detection'')"
    unfolding routeToAgent_def by (rule if_not_P)
  then show ?thesis
    by (simp add: Let_def first_category_def categories_def)
qed

lemma own_route_skillId: "skillId (own_route k) = k"
  by (simp add: own_route_def)

text \<open>
  Routing by message text. When the request gives no skill id that the lookup in
  \<open>SKILL_MAP\<close> finds, the route is the first category, in the fixed order ioc-lookup,
  triage-analysis, containment-response, reporting-visualization, continuous-learning,
  whose test the text passes; a text that contains an IPv4-shaped token (four groups of
  one to three digits joined by dots, not preceded or followed by a word character) goes
  to ioc-lookup whatever other keywords it contains; a text that passes no test goes to
  anomaly-detection.
\<close>

theorem routeToAgent_priority:
  "\<not> (truthy sid \<and> SKILL_MAP_get (the sid) \<noteq> None) \<longrightarrow>
     routeToAgent m sid = own_route (first_category m)
     \<and> skillId (routeToAgent m sid) = first_category m
     \<and> (digit_group d1 \<and> digit_group d2 \<and> digit_group d3 \<and> digit_group d4
          \<and> (pre = [] \<or> \<not> is_word (last pre)) \<and> (post = [] \<or> \<not> is_word (hd post))
          \<and> m = pre @ d1 @ ''.'' @ d2 @ ''.'' @ d3 @ ''.'' @ d4 @ post \<longrightarrow>
          skillId (routeToAgent m sid) = ''ioc-lookup'')
     \<and> (list_all (\<lambda>(c, test). \<not> test m) categories \<longrightarrow>
          skillId (routeToAgent m sid) = ''anomaly-detection'')"
proof (intro impI)
  assume u: "\<not> (truthy sid \<and> SKILL_MAP_get (the sid) \<noteq> None)"
  note r = routeToAgent_unrecognized [OF u, of m]
  then have s: "skillId (routeToAgent m sid) = first_category m"
    by (simp add: own_route_skillId)
  have ip: "skillId (routeToAgent m sid) = ''ioc-lookup''"
    if "digit_group d1" "digit_group d2" "digit_group d3" "digit_group d4"
      "pre = [] \<or> \<not> is_word (last pre)" "post = [] \<or> \<not> is_word (hd post)"
      "m = pre @ d1 @ ''.'' @ d2 @ ''.'' @ d3 @ ''.'' @ d4 @ post"
  proof -
    have "rx_test RX_IPV4 (pre @ d1 @ ''.'' @ d2 @ ''.'' @ d3 @ ''.'' @ d4 @ post)"
      using that(1-6) by (rule ipv4_token_matches)
    with that(7) have "first_category m = ''ioc-lookup''"
      by (simp add: first_category_def categories_def)
    with s show ?thesis by simp
  qed
  have dflt: "skillId (routeToAgent m sid) = ''anomaly-detection''"
    if "list_all (\<lambda>(c, test). \<not> test m) categories"
  proof -
    from that have "find (\<lambda>(c, test). test m) categories = None"
      by (auto simp: find_None_iff list_all_iff)
    then have "first_category m = ''anomaly-detection''" by (simp add: first_category_def)
    with s show ?thesis by simp
  qed
  from r s ip dflt
  show "routeToAgent m sid = own_route (first_category m)
     \<and> skillId (routeToAgent m sid) = first_category m
     \<and> (digit_group d1 \<and> digit_group d2 \<and> digit_group d3 \<and> digit_group d4
          \<and> (pre = [] \<or> \<not> is_word (last pre)) \<and> (post = [] \<or> \<not> is_word (hd post))
          \<and> m = pre @ d1 @ ''.'' @ d2 @ ''.'' @ d3 @ ''.'' @ d4 @ post \<longrightarrow>
          skillId (routeToAgent m sid) = ''ioc-lookup'')
     \<and> (list_all (\<lambda>(c, test). \<not> test m) categories \<longrightarrow>
          skillId (routeToAgent m sid) = ''anomaly-detection'')"
    by blast
qed

theorem routeToAgent_priority_witness:
  "\<not> (truthy None \<and> SKILL_MAP_get (the None) \<noteq> None)
   \<and> digit_group ''10'' \<and> digit_group ''0'' \<and> digit_group ''1''
   \<and> \<not> is_word (last ''triage the alert from '') \<and> \<not> is_word (hd '', then contain and report'')
   \<and> skillId (routeToAgent ''triage the alert from 10.0.0.1, then contain and report'' None)
       = ''ioc-lookup''
   \<and> list_all (\<lambda>(c, test). \<not> test ''hello world'') categories
   \<and> skillId (routeToAgent ''hello world'' None) = ''anomaly-detection''
   \<and> routeToAgent ''weekly summary'' None = own_route ''reporting-visualization''"
proof -
  have h0: "\<not> (truthy None \<and> SKILL_MAP_get (the None) \<noteq> None)" by (simp add: truthy_def)
  have h1: "digit_group ''10'' \<and> digit_group ''0'' \<and> digit_group ''1''"
    by (simp add: digit_group_def is_digit_def)
  have h2: "\<not> is_word (last ''triage the alert from '') \<and> \<not> is_word (hd '', then contain and report'')"
    by (simp add: is_word_def)
  have h3: "list_all (\<lambda>(c, test). \<not> test ''hello world'') categories" by code_simp
  have h4: "first_category ''weekly summary'' = ''reporting-visualization''" by code_simp
  have t: "''triage the alert from 10.0.0.1, then contain and report''
            = ''triage the alert from '' @ ''10'' @ ''.'' @ ''0'' @ ''.'' @ ''0'' @ ''.'' @ ''1''
              @ '', then contain and report''"
    by simp
  from routeToAgent_priority [where sid = None
      and m = "''triage the alert from 10.0.0.1, then contain and report''"
      and pre = "''triage the alert from ''" and ?d1.0 = "''10''" and ?d2.0 = "''0''"
      and ?d3.0 = "''0''" and ?d4.0 = "''1''" and post = "'', then contain and report''"]
    h0 h1 h2 t
  have c1: "skillId (routeToAgent ''triage the alert from 10.0.0.1, then contain and report'' None)
       = ''ioc-lookup''"
    by blast
  from routeToAgent_priority [where sid = None and m = "''hello world''"] h0 h3
  have c2: "skillId (routeToAgent ''hello world'' None) = ''anomaly-detection''"
    by blast
  from routeToAgent_priority [where sid = None and m = "''weekly summary''"] h0 h4
  have c3: "routeToAgent ''weekly summary'' None = own_route ''reporting-visualization''"
    by simp
  from h0 h1 h2 h3 c1 c2 c3 show ?thesis by blast
qed

text \<open>
  C8. A \<open>message/send\<close> whose text is \<open>scan 10.0.0.1\<close> and whose metadata names the skill id
  \<open>constructor\<close>: this is none of the six skills of \<open>SKILL_MAP\<close>, and the text alone routes
  to ioc-lookup, yet the lookup finds the property inherited from the object prototype,
  so the router answers with the skill id \<open>constructor\<close> and an agent without \<open>agentId\<close>,
  and \<open>handleMessageSend\<close> ends in a \<open>TypeError\<close> with nothing stored.
\<close>

theorem routeToAgent_inherited_skillId:
  "map_of SKILL_MAP ''constructor'' = None
   \<and> first_category ''scan 10.0.0.1'' = ''ioc-lookup''
   \<and> routeToAgent ''scan 10.0.0.1'' (Some ''constructor'')
       = \<lparr>skillId = ''constructor'', agent = Inherited\<rparr>
   \<and> handleMessageSend env srv i (Some (example_send ''scan 10.0.0.1'' (Some ''constructor'')))
       = (Inl TypeError, srv)"
proof -
  have a: "map_of SKILL_MAP ''constructor'' = None" by (simp add: SKILL_MAP_def)
  have b: "first_category ''scan 10.0.0.1'' = ''ioc-lookup''" by code_simp
  have c: "routeToAgent ''scan 10.0.0.1'' (Some ''constructor'')
       = \<lparr>skillId = ''constructor'', agent = Inherited\<rparr>"
    by (simp add: routeToAgent_def truthy_def SKILL_MAP_get_def SKILL_MAP_def
        Object_prototype_keys_def)
  have u: "userText_of [text_part ''scan 10.0.0.1''] = ''scan 10.0.0.1''" by code_simp
  have d: "handleMessageSend env srv i (Some (example_send ''scan 10.0.0.1'' (Some ''constructor'')))
       = (Inl TypeError, srv)"
    by (simp add: handleMessageSend_def example_send_def Let_def truthy_def u c agentId_of_def)
  from a b c d show ?thesis by blast
qed

section \<open>States of stored tasks\<close>

lemma store_task_objs: "objs (store_task srv k t) = objs srv @ [t]"
  by (simp add: store_task_def Let_def)

lemma tasks_get_completed:
  "all_completed srv \<Longrightarrow> tasks_get srv k = Some (r, t) \<Longrightarrow> state t = ''completed''"
  by (auto simp: all_completed_def tasks_get_def list_all_length split: option.splits if_splits)

lemma cancel_completed:
  assumes "all_completed srv"
  shows "snd (handleTasksCancel clock srv i params) = srv
         \<and> is_failure (fst (handleTasksCancel clock srv i params))"
proof (cases params)
  case None
  then show ?thesis by (simp add: handleTasksCancel_def is_failure_def)
next
  case (Some p)
  show ?thesis
  proof (cases "tasks_get srv (the (params_id p))")
    case None
    with Some show ?thesis by (simp add: handleTasksCancel_def is_failure_def)
  next
    case (Some a)
    obtain r t where a: "a = (r, t)" by (cases a)
    with Some assms have "state t = ''completed''" using tasks_get_completed by blast
    with Some a \<open>params = Some p\<close> show ?thesis
      by (simp add: handleTasksCancel_def is_failure_def terminalStates_def)
  qed
qed

lemma get_completed:
  assumes "all_completed srv"
  shows "all_completed (snd (handleTasksGet srv i params))"
proof (cases params)
  case None
  with assms show ?thesis by (simp add: handleTasksGet_def)
next
  case (Some p)
  show ?thesis
  proof (cases "tasks_get srv (the (params_id p))")
    case None
    with Some assms show ?thesis by (simp add: handleTasksGet_def)
  next
    case (Some a)
    obtain r t where a: "a = (r, t)" by (cases a)
    with Some assms have "state t = ''completed''" using tasks_get_completed by blast
    with Some a \<open>params = Some p\<close> assms show ?thesis
      by (simp add: handleTasksGet_def Let_def all_completed_def)
  qed
qed

lemma send_completed:
  assumes "all_completed srv"
  shows "all_completed (snd (handleMessageSend env srv i params))"
  using handleMessageSend_other [of env srv i params]
proof
  assume "\<exists>task. handleMessageSend env srv i params
            = (Inr (Success i task), store_task srv (task_id task) task)"
  then obtain task where r: "handleMessageSend env srv i params
            = (Inr (Success i task), store_task srv (task_id task) task)" ..
  from handleMessageSend_success [OF r] have "state task = ''completed''" by simp
  with r assms show ?thesis by (simp add: all_completed_def store_task_objs)
next
  assume "snd (handleMessageSend env srv i params) = srv"
  with assms show ?thesis by simp
qed

lemma step_completed: "all_completed srv \<Longrightarrow> all_completed (step srv r)"
proof (cases r)
  case (MessageSend env i params)
  assume "all_completed srv"
  with MessageSend show ?thesis by (simp add: send_completed)
next
  case (TasksGet i params)
  assume "all_completed srv"
  with TasksGet show ?thesis by (simp add: get_completed)
next
  case (TasksCancel clock i params)
  assume "all_completed srv"
  with TasksCancel show ?thesis by (simp add: cancel_completed)
qed

lemma foldl_step_completed: "all_completed srv \<Longrightarrow> all_completed (foldl step srv reqs)"
  by (induction reqs arbitrary: srv) (simp_all add: step_completed)

text \<open>
  Every task is created in state completed, so after any sequence of requests every task
  object is in that state, and a \<open>tasks/cancel\<close> request then always answers with an error
  and leaves the store as it is.
\<close>

theorem run_cancel_never_succeeds:
  "all_completed (run reqs)
   \<and> snd (handleTasksCancel clock (run reqs) i params) = run reqs
   \<and> is_failure (fst (handleTasksCancel clock (run reqs) i params))"
proof -
  have "all_completed (run reqs)"
    unfolding run_def by (rule foldl_step_completed) (simp add: all_completed_def empty_server_def)
  then show ?thesis using cancel_completed by blast
qed

end
